theory Spec2Isabelle
  imports Complex_Main
begin

section \<open>Options-chain collection: a model of oc.py and yf\_ochains.py\<close>

text \<open>
  The two scripts fetch option chains from external providers and write one CSV file
  per ticker. The providers are opaque collaborators: each call to one of them is a
  parameter of the model that returns either a Python exception (\<open>Inl\<close>) or a value
  (\<open>Inr\<close>). Python floats are modelled by rationals; the not-a-number value that
  pandas uses for a missing cell is a cell of its own (\<open>NaN\<close>) in the data frames of
  yf\_ochains.py. Everything the scripts print is appended to the \<open>out\<close> list of the world.
\<close>

subsection \<open>Python exceptions and printed messages\<close>

datatype error =
    ProviderError
  | IndexError
  | KeyError string
  | TypeError
  | ValueError
  | OSError

datatype msg =
    PriceWarning string error
  | CurrentPrice string rat
  | FoundContracts nat string
  | BatchFailed nat string error
  | FetchingChain string
  | NoData string
  | SavedContracts nat string
  | NoOptionsData string
  | FoundExpirations nat string
  | FetchingExpiration int
  | ExpirationError int error
  | OptionsFetched string nat nat nat
  | ChainError string error
  | SavedRecords nat string
  | Banner string
  | NoDataRetrieved string

subsection \<open>oc.py: the price oracle\<close>

text \<open>
  What \<open>yf.Ticker(ticker)\<close> offers to \<open>get_current_price_yf\<close>: the field
  \<open>fast_info.last_price\<close>, which is \<open>None\<close> or a float, and the column of daily
  closing prices of \<open>history(period="1d")\<close>, oldest first. Either access may raise.
\<close>

record yf_quote =
  fast_last_price :: "error + rat option"
  history_close :: "error + rat list"

text \<open>\<open>series.iloc[-1]\<close>: the last element, \<open>IndexError\<close> on an empty series.\<close>

definition iloc_last :: "rat list \<Rightarrow> error + rat" where
  "iloc_last xs = (if xs = [] then Inl IndexError else Inr (last xs))"

text \<open>The body of the \<open>try\<close> block of \<open>get_current_price_yf\<close>.\<close>

definition current_price_body :: "(string \<Rightarrow> error + yf_quote) \<Rightarrow> string \<Rightarrow> error + rat" where
  "current_price_body yf_Ticker ticker =
     (case yf_Ticker ticker of
        Inl e \<Rightarrow> Inl e
      | Inr ticker_obj \<Rightarrow>
          (case fast_last_price ticker_obj of
             Inl e \<Rightarrow> Inl e
           | Inr price \<Rightarrow>
               (if price = None \<or> the price \<le> 0
                then (case history_close ticker_obj of
                        Inl e \<Rightarrow> Inl e
                      | Inr closes \<Rightarrow> iloc_last closes)
                else Inr (the price))))"

text \<open>
  \<open>get_current_price_yf\<close>: the \<open>except Exception\<close> handler prints a warning and
  returns the fallback value 90.0. The result is the price and the messages printed.
\<close>

definition get_current_price_yf :: "(string \<Rightarrow> error + yf_quote) \<Rightarrow> string \<Rightarrow> rat \<times> msg list" where
  "get_current_price_yf yf_Ticker ticker =
     (case current_price_body yf_Ticker ticker of
        Inr price \<Rightarrow> (price, [])
      | Inl e \<Rightarrow> (90, [PriceWarning ticker e]))"

subsection \<open>Dates and times\<close>

text \<open>
  A \<open>datetime\<close> is a calendar day (its ordinal) and the time of day in microseconds.
  A \<open>date\<close> is the ordinal alone. \<open>datetime.now()\<close> and \<open>date.today()\<close> are read
  from the environment (\<open>now\<close>), once per run.
\<close>

record datetime =
  day :: int
  tod :: nat

definition datetime_le :: "datetime \<Rightarrow> datetime \<Rightarrow> bool" where
  "datetime_le a b = (day a < day b \<or> (day a = day b \<and> tod a \<le> tod b))"

definition plus_days :: "datetime \<Rightarrow> int \<Rightarrow> datetime" where
  "plus_days t n = t\<lparr>day := day t + n\<rparr>"

subsection \<open>oc.py: what the brokerage provider returns\<close>

datatype contract_type = CALL | PUT

text \<open>
  An option contract as \<open>get_options_chain_snapshot\<close> reads it. The attributes that the
  source reads with \<open>getattr(obj, name, default)\<close> are options: \<open>None\<close> is an absent
  attribute, and a present attribute holds a number.
\<close>

record option_contract =
  symbol :: string
  strike_price :: rat
  expiration_date :: int
  contract_type :: contract_type
  contract_volume :: "rat option"
  contract_open_interest :: "rat option"

text \<open>A quote and a trade: each price is a float or \<open>None\<close>.\<close>

record quote =
  bid_price :: "rat option"
  ask_price :: "rat option"

record trade =
  price :: "rat option"

record snapshot =
  latest_quote :: "quote option"
  latest_trade :: "trade option"
  snap_volume :: "rat option"
  snap_open_interest :: "rat option"
  implied_volatility :: "rat option"

datatype asset_status = ACTIVE | INACTIVE

record contracts_request =
  underlying_symbols :: "string list"
  status :: asset_status
  expiration_date_lte :: int
  strike_price_gte :: rat
  strike_price_lte :: rat
  page_token :: "string option"

text \<open>
  The result of \<open>get_option_contracts\<close>: a tuple of the contracts and a continuation
  token (\<open>None\<close> or a string), or the contracts alone.
\<close>

datatype contracts_response =
    Paged "option_contract list" "string option"
  | Bare "option_contract list"

text \<open>The environment of oc.py: the three providers, the clock and the file system.\<close>

record alpaca_env =
  yf_Ticker :: "string \<Rightarrow> error + yf_quote"
  get_option_contracts :: "contracts_request \<Rightarrow> error + contracts_response"
  get_option_snapshot :: "string list \<Rightarrow> error + (string \<rightharpoonup> snapshot)"
  now :: datetime
  strftime_now :: string
  to_csv_fails :: "string \<Rightarrow> bool"

subsection \<open>oc.py: contract discovery\<close>

text \<open>Python's truth value of a token: \<open>None\<close> and the empty string are false.\<close>

definition truthy :: "string option \<Rightarrow> bool" where
  "truthy t = (t \<noteq> None \<and> t \<noteq> Some [])"

definition unpack :: "contracts_response \<Rightarrow> option_contract list \<times> string option" where
  "unpack result = (case result of Paged cs tok \<Rightarrow> (cs, tok) | Bare cs \<Rightarrow> (cs, None))"

text \<open>
  The \<open>while True\<close> loop of \<open>get_options_chain_snapshot\<close>. The state is the request
  (whose \<open>page_token\<close> the loop overwrites), the current \<open>page_token\<close> and
  \<open>all_contracts\<close>. The loop has no bound of its own: \<open>None\<close> is a run that never
  leaves it, \<open>Some (Inl e)\<close> a run in which the provider raised.
\<close>

partial_function (option) discovery_loop ::
  "(contracts_request \<Rightarrow> error + contracts_response) \<Rightarrow> contracts_request \<Rightarrow> string option
     \<Rightarrow> option_contract list \<Rightarrow> (error + option_contract list) option" where
  "discovery_loop get req tok all_contracts =
     (case get (if truthy tok then req\<lparr>page_token := tok\<rparr> else req) of
        Inl e \<Rightarrow> Some (Inl e)
      | Inr result \<Rightarrow>
          (if truthy (snd (unpack result))
           then discovery_loop get (if truthy tok then req\<lparr>page_token := tok\<rparr> else req)
                  (snd (unpack result)) (all_contracts @ fst (unpack result))
           else Some (Inr (all_contracts @ fst (unpack result)))))"

subsection \<open>oc.py: snapshot enrichment\<close>

text \<open>\<open>range(start, stop, step)\<close> for a positive step.\<close>

function py_range :: "nat \<Rightarrow> nat \<Rightarrow> nat \<Rightarrow> nat list" where
  "py_range i stop step = (if i < stop \<and> 0 < step then i # py_range (i + step) stop step else [])"
  by pat_completeness auto
termination
  by (relation "measure (\<lambda>(i, stop, step). stop - i)") auto

declare py_range.simps [simp del]

text \<open>
  The state of the batching loop: the dictionary \<open>all_snaps\<close>, the messages printed,
  and the batches handed to \<open>get_option_snapshot\<close> so far.
\<close>

record snap_state =
  all_snaps :: "string \<rightharpoonup> snapshot"
  printed :: "msg list"
  requests :: "string list list"

definition snapshot_step ::
  "(string list \<Rightarrow> error + (string \<rightharpoonup> snapshot)) \<Rightarrow> string \<Rightarrow> string list
     \<Rightarrow> snap_state \<Rightarrow> nat \<Rightarrow> snap_state" where
  "snapshot_step get ticker symbols st i =
     (let batch = take 20 (drop i symbols) in
      case get batch of
        Inr snaps \<Rightarrow> st\<lparr>all_snaps := all_snaps st ++ snaps, requests := requests st @ [batch]\<rparr>
      | Inl e \<Rightarrow> st\<lparr>printed := printed st @ [BatchFailed (i div 20) ticker e],
                    requests := requests st @ [batch]\<rparr>)"

definition fetch_snapshots ::
  "(string list \<Rightarrow> error + (string \<rightharpoonup> snapshot)) \<Rightarrow> string \<Rightarrow> string list \<Rightarrow> snap_state" where
  "fetch_snapshots get ticker symbols =
     foldl (snapshot_step get ticker symbols)
       \<lparr>all_snaps = Map.empty, printed = [], requests = []\<rparr>
       (py_range 0 (length symbols) 20)"

subsection \<open>oc.py: row assembly\<close>

record option_row =
  ticker :: string
  option_code :: string
  strike :: rat
  exp_date :: int
  option_type :: string
  bid :: rat
  ask :: rat
  last_price :: rat
  mid_price :: rat
  volume :: int
  open_interest :: int
  iv :: rat
  timestamp :: datetime
  snapshot_date :: int

text \<open>\<open>x or 0.0\<close> for a float or \<open>None\<close>; \<open>a or b\<close> for two numbers.\<close>

definition or_zero :: "rat option \<Rightarrow> rat" where
  "or_zero x = (case x of None \<Rightarrow> 0 | Some v \<Rightarrow> (if v \<noteq> 0 then v else 0))"

definition py_or :: "rat \<Rightarrow> rat \<Rightarrow> rat" where
  "py_or a b = (if a \<noteq> 0 then a else b)"

definition getattr_default :: "rat option \<Rightarrow> rat \<Rightarrow> rat" where
  "getattr_default attr d = (case attr of None \<Rightarrow> d | Some v \<Rightarrow> v)"

text \<open>\<open>int(x)\<close> truncates towards zero.\<close>

definition py_int :: "rat \<Rightarrow> int" where
  "py_int x = (if 0 \<le> x then \<lfloor>x\<rfloor> else \<lceil>x\<rceil>)"

text \<open>\<open>contract.type.value.upper()\<close>.\<close>

definition type_upper :: "contract_type \<Rightarrow> string" where
  "type_upper t = (case t of CALL \<Rightarrow> ''CALL'' | PUT \<Rightarrow> ''PUT'')"

text \<open>The six local variables that one pass of the row loop computes.\<close>

record market =
  m_bid :: rat
  m_ask :: rat
  m_last_price :: rat
  m_volume :: rat
  m_open_interest :: rat
  m_iv :: rat

definition market_fields :: "option_contract \<Rightarrow> snapshot option \<Rightarrow> market" where
  "market_fields contract snap =
     (case snap of
        None \<Rightarrow> \<lparr>m_bid = 0, m_ask = 0, m_last_price = 0, m_volume = 0, m_open_interest = 0, m_iv = 0\<rparr>
      | Some s \<Rightarrow>
          \<lparr>m_bid = (case latest_quote s of None \<Rightarrow> 0 | Some q \<Rightarrow> or_zero (bid_price q)),
           m_ask = (case latest_quote s of None \<Rightarrow> 0 | Some q \<Rightarrow> or_zero (ask_price q)),
           m_last_price = (case latest_trade s of None \<Rightarrow> 0 | Some t \<Rightarrow> or_zero (price t)),
           m_volume = py_or (getattr_default (contract_volume contract) 0)
                        (getattr_default (snap_volume s) 0),
           m_open_interest = py_or (getattr_default (contract_open_interest contract) 0)
                               (getattr_default (snap_open_interest s) 0),
           m_iv = getattr_default (implied_volatility s) 0\<rparr>)"

definition make_row :: "string \<Rightarrow> datetime \<Rightarrow> (string \<rightharpoonup> snapshot) \<Rightarrow> option_contract \<Rightarrow> option_row" where
  "make_row tk t snaps contract =
     (let m = market_fields contract (snaps (symbol contract)) in
      \<lparr>ticker = tk,
       option_code = symbol contract,
       strike = strike_price contract,
       exp_date = expiration_date contract,
       option_type = type_upper (contract_type contract),
       bid = m_bid m,
       ask = m_ask m,
       last_price = m_last_price m,
       mid_price = (if m_bid m > 0 \<or> m_ask m > 0 then (m_bid m + m_ask m) / 2 else 0),
       volume = py_int (m_volume m),
       open_interest = py_int (m_open_interest m),
       iv = m_iv m,
       timestamp = t,
       snapshot_date = day t\<rparr>)"

subsection \<open>oc.py: one ticker, and the batch\<close>

text \<open>
  \<open>get_options_chain_snapshot\<close>, in two phases. \<open>discover\<close> is the first: the price
  lookup, the request and the pagination loop. Its result comes with the messages
  printed; \<open>None\<close> is a run that never leaves the loop.
\<close>

definition discover ::
  "alpaca_env \<Rightarrow> string \<Rightarrow> int \<Rightarrow> rat \<Rightarrow> (error + option_contract list) option \<times> msg list" where
  "discover env tk exp_days strike_pct =
     (let (current_price, warned) = get_current_price_yf (yf_Ticker env) tk;
          req = \<lparr>underlying_symbols = [tk], status = ACTIVE,
                 expiration_date_lte = day (now env) + exp_days,
                 strike_price_gte = current_price * (1 - strike_pct),
                 strike_price_lte = current_price * (1 + strike_pct),
                 page_token = None\<rparr>
      in (discovery_loop (get_option_contracts env) req None [],
          warned @ [CurrentPrice tk current_price]))"

text \<open>
  The second phase, from the discovered contracts to the rows: the count is printed, an
  empty discovery gives the empty \<open>DataFrame\<close> (the empty list of rows), otherwise
  the symbols of the first 50 contracts are enriched and one row is built per contract.
\<close>

definition snapshot_rows ::
  "alpaca_env \<Rightarrow> string \<Rightarrow> option_contract list \<Rightarrow> option_row list \<times> msg list" where
  "snapshot_rows env tk all_contracts =
     (if all_contracts = [] then ([], [FoundContracts (length all_contracts) tk])
      else
        (let symbols = map symbol (take 50 all_contracts);
             st = fetch_snapshots (get_option_snapshot env) tk symbols
         in (map (make_row tk (now env) (all_snaps st)) all_contracts,
             [FoundContracts (length all_contracts) tk] @ printed st)))"

definition get_options_chain_snapshot ::
  "alpaca_env \<Rightarrow> string \<Rightarrow> int \<Rightarrow> rat \<Rightarrow> ((error + option_row list) \<times> msg list) option" where
  "get_options_chain_snapshot env tk exp_days strike_pct =
     (case discover env tk exp_days strike_pct of
        (None, printed1) \<Rightarrow> None
      | (Some (Inl e), printed1) \<Rightarrow> Some (Inl e, printed1)
      | (Some (Inr all_contracts), printed1) \<Rightarrow>
          Some (Inr (fst (snapshot_rows env tk all_contracts)),
                printed1 @ snd (snapshot_rows env tk all_contracts)))"

text \<open>The world of a run: what was printed and the CSV files written, in order.\<close>

record 'f world =
  out :: "msg list"
  files :: "(string \<times> 'f) list"

text \<open>
  \<open>fetch_multiple_tickers\<close>: the loop over the tickers. \<open>Inl e\<close> is an exception that
  leaves the function, with the world as it was when it was raised.
\<close>

fun fetch_multiple_tickers ::
  "alpaca_env \<Rightarrow> string list \<Rightarrow> int \<Rightarrow> rat \<Rightarrow> (option_row list) world
     \<Rightarrow> ((error + unit) \<times> (option_row list) world) option" where
  "fetch_multiple_tickers env [] exp_days strike_pct w = Some (Inr (), w)"
| "fetch_multiple_tickers env (tk # rest) exp_days strike_pct w =
     (case get_options_chain_snapshot env tk exp_days strike_pct of
        None \<Rightarrow> None
      | Some (Inl e, printed1) \<Rightarrow> Some (Inl e, w\<lparr>out := out w @ [FetchingChain tk] @ printed1\<rparr>)
      | Some (Inr df, printed1) \<Rightarrow>
          (if df = []
           then fetch_multiple_tickers env rest exp_days strike_pct
                  (w\<lparr>out := out w @ [FetchingChain tk] @ printed1 @ [NoData tk]\<rparr>)
           else
             (let filename = tk @ ''_options_'' @ strftime_now env @ ''.csv'' in
              if to_csv_fails env filename
              then Some (Inl OSError, w\<lparr>out := out w @ [FetchingChain tk] @ printed1\<rparr>)
              else fetch_multiple_tickers env rest exp_days strike_pct
                     (w\<lparr>out := out w @ [FetchingChain tk] @ printed1
                                @ [SavedContracts (length df) filename],
                        files := files w @ [(filename, df)]\<rparr>))))"

subsection \<open>yf\_ochains.py: data frames\<close>

text \<open>
  A cell of a pandas \<open>DataFrame\<close>: \<open>NaN\<close> is the missing value, \<open>Num\<close> a float,
  \<open>IntC\<close> an integer, \<open>Str\<close> a string, \<open>Stamp\<close> a \<open>datetime\<close> and \<open>DateC\<close> a
  date. The provider's expiration strings (\<open>"%Y-%m-%d"\<close>) are represented by the day
  they denote. A frame is its column names, in order, and its rows; a row maps each
  column name to a cell.
\<close>

datatype cell = NaN | Num rat | IntC int | Str string | Stamp datetime | DateC int

record frame =
  columns :: "string list"
  records :: "(string \<rightharpoonup> cell) list"

text \<open>\<open>pd.DataFrame()\<close> and \<open>df.empty\<close>.\<close>

definition empty_frame :: frame where
  "empty_frame = \<lparr>columns = [], records = []\<rparr>"

definition frame_empty :: "frame \<Rightarrow> bool" where
  "frame_empty df = (columns df = [] \<or> records df = [])"

definition cell_at :: "(string \<rightharpoonup> cell) \<Rightarrow> string \<Rightarrow> cell" where
  "cell_at r c = (case r c of None \<Rightarrow> NaN | Some v \<Rightarrow> v)"

text \<open>A row laid out on the columns \<open>cs\<close>: a column the row does not have is missing.\<close>

definition reindex :: "string list \<Rightarrow> (string \<rightharpoonup> cell) \<Rightarrow> (string \<rightharpoonup> cell)" where
  "reindex cs r = (\<lambda>k. if k \<in> set cs then Some (cell_at r k) else None)"

text \<open>\<open>df[cs]\<close> for a list of existing columns, and \<open>df.copy()\<close>.\<close>

definition select_columns :: "string list \<Rightarrow> frame \<Rightarrow> frame" where
  "select_columns cs df = \<lparr>columns = cs, records = map (reindex cs) (records df)\<rparr>"

definition copy_frame :: "frame \<Rightarrow> frame" where
  "copy_frame df = select_columns (columns df) df"

text \<open>\<open>df[c] = v\<close> for a scalar, and for a series on the same index.\<close>

definition set_column :: "string \<Rightarrow> cell \<Rightarrow> frame \<Rightarrow> frame" where
  "set_column c v df =
     \<lparr>columns = (if c \<in> set (columns df) then columns df else columns df @ [c]),
      records = map (\<lambda>r. r(c \<mapsto> v)) (records df)\<rparr>"

definition set_column_cells :: "string \<Rightarrow> cell list \<Rightarrow> frame \<Rightarrow> frame" where
  "set_column_cells c vs df =
     \<lparr>columns = (if c \<in> set (columns df) then columns df else columns df @ [c]),
      records = map (\<lambda>(r, v). r(c \<mapsto> v)) (zip (records df) vs)\<rparr>"

text \<open>\<open>df[c]\<close>: the cells of a column, \<open>KeyError\<close> when there is no such column.\<close>

definition get_column :: "string \<Rightarrow> frame \<Rightarrow> error + cell list" where
  "get_column c df =
     (if c \<in> set (columns df) then Inr (map (\<lambda>r. cell_at r c) (records df)) else Inl (KeyError c))"

text \<open>
  \<open>pd.concat(dfs, ignore_index=True)\<close>: the columns are the union in order of first
  appearance, and a row has \<open>NaN\<close> in the columns its own frame lacks.
\<close>

definition union_columns :: "string list \<Rightarrow> string list \<Rightarrow> string list" where
  "union_columns xs ys = xs @ filter (\<lambda>c. c \<notin> set xs) (remdups ys)"

definition concat_frames :: "frame list \<Rightarrow> frame" where
  "concat_frames dfs =
     (let cs = foldl union_columns [] (map columns dfs)
      in \<lparr>columns = cs, records = concat (map (\<lambda>df. map (reindex cs) (records df)) dfs)\<rparr>)"

text \<open>
  \<open>df.rename(columns=...)\<close> with the mapping of \<open>get_option_chain\<close>. Where two columns
  receive one name, the row gives the first one's cell.
\<close>

definition rename_map :: "string \<Rightarrow> string" where
  "rename_map c =
     (if c = ''contractSymbol'' then ''option_code''
      else if c = ''lastPrice'' then ''last_price''
      else if c = ''openInterest'' then ''open_interest''
      else if c = ''impliedVolatility'' then ''iv''
      else c)"

definition rename_columns :: "(string \<Rightarrow> string) \<Rightarrow> frame \<Rightarrow> frame" where
  "rename_columns f df =
     \<lparr>columns = map f (columns df),
      records = map (\<lambda>r k. case find (\<lambda>c. f c = k) (columns df) of
                              None \<Rightarrow> None | Some c \<Rightarrow> r c) (records df)\<rparr>"

text \<open>
  Arithmetic on cells: the number in a cell, \<open>None\<close> for \<open>NaN\<close>; a cell that holds no
  number raises. \<open>(b + a) / 2\<close> is \<open>NaN\<close> as soon as one operand is.
\<close>

definition num_of :: "cell \<Rightarrow> error + rat option" where
  "num_of v =
     (case v of
        NaN \<Rightarrow> Inr None
      | Num x \<Rightarrow> Inr (Some x)
      | IntC n \<Rightarrow> Inr (Some (of_int n))
      | Str s \<Rightarrow> Inl TypeError
      | Stamp t \<Rightarrow> Inl TypeError
      | DateC d \<Rightarrow> Inl TypeError)"

definition mid_cell :: "cell \<Rightarrow> cell \<Rightarrow> error + cell" where
  "mid_cell b a =
     (case num_of b of
        Inl e \<Rightarrow> Inl e
      | Inr x \<Rightarrow>
          (case num_of a of
             Inl e \<Rightarrow> Inl e
           | Inr y \<Rightarrow>
               Inr (case x of
                      None \<Rightarrow> NaN
                    | Some u \<Rightarrow> (case y of None \<Rightarrow> NaN | Some v \<Rightarrow> Num ((u + v) / 2)))))"

text \<open>A column operation raises as soon as one of its cells does.\<close>

fun sequence :: "(error + 'a) list \<Rightarrow> error + 'a list" where
  "sequence [] = Inr []"
| "sequence (x # xs) =
     (case x of
        Inl e \<Rightarrow> Inl e
      | Inr v \<Rightarrow> (case sequence xs of Inl e \<Rightarrow> Inl e | Inr vs \<Rightarrow> Inr (v # vs)))"

text \<open>\<open>(options["bid"] + options["ask"]) / 2\<close>.\<close>

definition mid_price_column :: "frame \<Rightarrow> error + cell list" where
  "mid_price_column df =
     (if ''bid'' \<notin> set (columns df) then Inl (KeyError ''bid'')
      else if ''ask'' \<notin> set (columns df) then Inl (KeyError ''ask'')
      else sequence (map (\<lambda>r. mid_cell (cell_at r ''bid'') (cell_at r ''ask'')) (records df)))"

text \<open>\<open>df.dropna(subset=[c])\<close>, \<open>fillna(0)\<close> and \<open>astype(int)\<close> on one cell.\<close>

definition dropna :: "string \<Rightarrow> frame \<Rightarrow> error + frame" where
  "dropna c df =
     (if c \<in> set (columns df)
      then Inr (df\<lparr>records := filter (\<lambda>r. cell_at r c \<noteq> NaN) (records df)\<rparr>)
      else Inl (KeyError c))"

definition fillna0 :: "cell \<Rightarrow> cell" where
  "fillna0 v = (if v = NaN then Num 0 else v)"

definition astype_int :: "cell \<Rightarrow> error + cell" where
  "astype_int v =
     (case v of
        NaN \<Rightarrow> Inl ValueError
      | Num x \<Rightarrow> Inr (IntC (py_int x))
      | IntC n \<Rightarrow> Inr (IntC n)
      | Str s \<Rightarrow> Inl ValueError
      | Stamp t \<Rightarrow> Inl TypeError
      | DateC d \<Rightarrow> Inl TypeError)"

subsection \<open>yf\_ochains.py: fetching one ticker\<close>

text \<open>What \<open>stock.option_chain(exp_date)\<close> returns, and the environment of the script.\<close>

record option_chain =
  chain_calls :: frame
  chain_puts :: frame

record yf_env =
  stock_options :: "string \<Rightarrow> error + int list"
  stock_option_chain :: "string \<Rightarrow> int \<Rightarrow> error + option_chain"
  clock :: datetime
  run_ts :: string
  write_fails :: "string \<Rightarrow> bool"

text \<open>\<open>datetime.strptime(d, "%Y-%m-%d")\<close>: midnight of the day.\<close>

definition strptime :: "int \<Rightarrow> datetime" where
  "strptime d = \<lparr>day = d, tod = 0\<rparr>"

definition filter_expirations :: "datetime \<Rightarrow> int option \<Rightarrow> int list \<Rightarrow> int list" where
  "filter_expirations t max_expiry_days expirations =
     (case max_expiry_days of
        None \<Rightarrow> expirations
      | Some n \<Rightarrow>
          (let cutoff_date = plus_days t n
           in filter (\<lambda>d. datetime_le (strptime d) cutoff_date) expirations))"

definition canonical_columns :: "string list" where
  "canonical_columns =
     [''ticker'', ''option_code'', ''strike'', ''exp_date'', ''type'',
      ''bid'', ''ask'', ''last_price'', ''mid_price'',
      ''volume'', ''open_interest'', ''iv'',
      ''timestamp'', ''snapshot_date'']"

text \<open>\<open>calls = opt.calls.copy(); calls["type"] = "CALL"; calls["exp_date"] = exp_date\<close>.\<close>

definition tagged :: "string \<Rightarrow> int \<Rightarrow> frame \<Rightarrow> frame" where
  "tagged kind expiry df =
     set_column ''exp_date'' (DateC expiry) (set_column ''type'' (Str kind) (copy_frame df))"

text \<open>The body of the inner \<open>try\<close>: the frame of one expiration.\<close>

definition expiration_frame :: "yf_env \<Rightarrow> string \<Rightarrow> int \<Rightarrow> error + frame" where
  "expiration_frame env tk expiry =
     (case stock_option_chain env tk expiry of
        Inl e \<Rightarrow> Inl e
      | Inr opt \<Rightarrow>
          (let calls = tagged ''CALL'' expiry (chain_calls opt);
               puts = tagged ''PUT'' expiry (chain_puts opt);
               options1 = concat_frames [calls, puts];
               options2 = set_column ''ticker'' (Str tk) options1;
               options3 = set_column ''timestamp'' (Stamp (clock env)) options2;
               options4 = set_column ''snapshot_date'' (DateC (day (clock env))) options3;
               options5 = rename_columns rename_map options4
           in case mid_price_column options5 of
                Inl e \<Rightarrow> Inl e
              | Inr mids \<Rightarrow>
                  (let options6 = set_column_cells ''mid_price'' mids options5;
                       available_cols = filter (\<lambda>c. c \<in> set (columns options6)) canonical_columns
                   in Inr (select_columns available_cols options6))))"

text \<open>The loop over the expirations: a failed expiration is reported and skipped.\<close>

fun fetch_expirations ::
  "yf_env \<Rightarrow> string \<Rightarrow> int list \<Rightarrow> frame list \<times> msg list \<Rightarrow> frame list \<times> msg list" where
  "fetch_expirations env tk [] acc = acc"
| "fetch_expirations env tk (expiry # rest) (all_options, pr) =
     (case expiration_frame env tk expiry of
        Inr options \<Rightarrow>
          fetch_expirations env tk rest (all_options @ [options], pr @ [FetchingExpiration expiry])
      | Inl e \<Rightarrow>
          fetch_expirations env tk rest
            (all_options, pr @ [FetchingExpiration expiry, ExpirationError expiry e]))"

text \<open>
  The four statements after the concatenation: rows without a strike are dropped,
  missing \<open>iv\<close> becomes 0, \<open>volume\<close> and \<open>open_interest\<close> are filled with 0 and cast.
\<close>

definition fill_and_cast :: "string \<Rightarrow> frame \<Rightarrow> error + frame" where
  "fill_and_cast c df =
     (case get_column c df of
        Inl e \<Rightarrow> Inl e
      | Inr vs \<Rightarrow>
          (case sequence (map (\<lambda>v. astype_int (fillna0 v)) vs) of
             Inl e \<Rightarrow> Inl e
           | Inr ws \<Rightarrow> Inr (set_column_cells c ws df)))"

definition post_process :: "frame \<Rightarrow> error + frame" where
  "post_process df =
     (case dropna ''strike'' df of
        Inl e \<Rightarrow> Inl e
      | Inr df1 \<Rightarrow>
          (case get_column ''iv'' df1 of
             Inl e \<Rightarrow> Inl e
           | Inr ivs \<Rightarrow>
               (case fill_and_cast ''volume'' (set_column_cells ''iv'' (map fillna0 ivs) df1) of
                  Inl e \<Rightarrow> Inl e
                | Inr df3 \<Rightarrow> fill_and_cast ''open_interest'' df3)))"

text \<open>The number of rows whose \<open>type\<close> is the given one, for the summary line.\<close>

definition count_type :: "string \<Rightarrow> frame \<Rightarrow> nat" where
  "count_type kind df = length (filter (\<lambda>r. cell_at r ''type'' = Str kind) (records df))"

text \<open>The body of the outer \<open>try\<close> of \<open>get_option_chain\<close>, with the messages printed.\<close>

definition option_chain_body :: "yf_env \<Rightarrow> string \<Rightarrow> int option \<Rightarrow> (error + frame) \<times> msg list" where
  "option_chain_body env tk max_expiry_days =
     (case stock_options env tk of
        Inl e \<Rightarrow> (Inl e, [])
      | Inr expirations \<Rightarrow>
          (if expirations = [] then (Inr empty_frame, [NoOptionsData tk])
           else
             (let kept = filter_expirations (clock env) max_expiry_days expirations;
                  fetched = fetch_expirations env tk kept ([], [FoundExpirations (length kept) tk])
              in if fst fetched = [] then (Inr empty_frame, snd fetched)
                 else
                   (case post_process (concat_frames (fst fetched)) of
                      Inl e \<Rightarrow> (Inl e, snd fetched)
                    | Inr df \<Rightarrow>
                        (Inr df,
                         snd fetched @ [OptionsFetched tk (length (records df))
                                          (count_type ''CALL'' df) (count_type ''PUT'' df)])))))"

text \<open>\<open>get_option_chain\<close>: the outer handler reports the error and returns an empty frame.\<close>

definition get_option_chain :: "yf_env \<Rightarrow> string \<Rightarrow> int option \<Rightarrow> frame \<times> msg list" where
  "get_option_chain env tk max_expiry_days =
     (case option_chain_body env tk max_expiry_days of
        (Inr df, pr) \<Rightarrow> (df, pr)
      | (Inl e, pr) \<Rightarrow> (empty_frame, pr @ [ChainError tk e]))"

subsection \<open>yf\_ochains.py: the batch\<close>

definition TICKERS :: "string list" where
  "TICKERS = [''CALM'', ''ONDS'', ''RKLB'', ''UBER'', ''NFLX'', ''V'']"

definition MAX_EXPIRY_DAYS :: "int option" where
  "MAX_EXPIRY_DAYS = Some 45"

definition OUTPUT_DIR :: string where
  "OUTPUT_DIR = ''/Users/monpabi/dev/financial_news/data_scraper/options/yfoc''"

text \<open>
  \<open>save_to_csv\<close>: creating the directory or writing the file may raise; nothing
  catches it.
\<close>

definition save_to_csv ::
  "yf_env \<Rightarrow> frame \<Rightarrow> string \<Rightarrow> string \<Rightarrow> frame world \<Rightarrow> (error + unit) \<times> frame world" where
  "save_to_csv env df filename output_dir w =
     (let full_path = output_dir @ ''/'' @ filename in
      if write_fails env full_path then (Inl OSError, w)
      else (Inr (), w\<lparr>out := out w @ [SavedRecords (length (records df)) full_path],
                      files := files w @ [(full_path, df)]\<rparr>))"

text \<open>The loop of \<open>run_multi_ticker_scrape\<close> over the tickers.\<close>

fun scrape_tickers ::
  "yf_env \<Rightarrow> string list \<Rightarrow> int option \<Rightarrow> frame world \<Rightarrow> (error + unit) \<times> frame world" where
  "scrape_tickers env [] max_days w = (Inr (), w)"
| "scrape_tickers env (tk # rest) max_days w =
     (let fetched = get_option_chain env tk max_days;
          w1 = w\<lparr>out := out w @ [Banner tk] @ snd fetched\<rparr>
      in if \<not> frame_empty (fst fetched)
         then (case save_to_csv env (fst fetched) (tk @ ''_'' @ run_ts env @ ''.csv'') OUTPUT_DIR w1 of
                 (Inl e, w2) \<Rightarrow> (Inl e, w2)
               | (Inr u, w2) \<Rightarrow> scrape_tickers env rest max_days w2)
         else scrape_tickers env rest max_days (w1\<lparr>out := out w1 @ [NoDataRetrieved tk]\<rparr>))"

definition run_multi_ticker_scrape :: "yf_env \<Rightarrow> frame world \<Rightarrow> (error + unit) \<times> frame world" where
  "run_multi_ticker_scrape env w = scrape_tickers env TICKERS MAX_EXPIRY_DAYS w"

subsection \<open>Predicates used in the statements\<close>

text \<open>
  \<open>serves get req pages\<close>: asked with \<open>req\<close>, the provider answers with the first
  page; every page but the last carries a continuation token that is true in Python's
  sense, and the request with that token is answered with the next page; the last page
  carries no such token (it is \<open>None\<close> or empty, or the response is a bare list).
\<close>

fun serves ::
  "(contracts_request \<Rightarrow> error + contracts_response) \<Rightarrow> contracts_request
     \<Rightarrow> contracts_response list \<Rightarrow> bool" where
  "serves get req [] = False"
| "serves get req [r] = (get req = Inr r \<and> \<not> truthy (snd (unpack r)))"
| "serves get req (r # r' # rs) =
     (get req = Inr r \<and> truthy (snd (unpack r))
      \<and> serves get (req\<lparr>page_token := snd (unpack r)\<rparr>) (r' # rs))"

text \<open>All seven market fields of a row are zero.\<close>

definition market_zero :: "option_row \<Rightarrow> bool" where
  "market_zero r =
     (bid r = 0 \<and> ask r = 0 \<and> last_price r = 0 \<and> mid_price r = 0
      \<and> volume r = 0 \<and> open_interest r = 0 \<and> iv r = 0)"

text \<open>
  A row whose \<open>mid_price\<close> cell is what \<open>(bid + ask) / 2\<close> gives on its \<open>bid\<close> and
  \<open>ask\<close> cells, and a frame that has the three columns and only such rows.
\<close>

definition mid_ok :: "(string \<rightharpoonup> cell) \<Rightarrow> bool" where
  "mid_ok r = (\<exists>b a m. r ''bid'' = Some b \<and> r ''ask'' = Some a \<and> r ''mid_price'' = Some m
                 \<and> mid_cell b a = Inr m)"

definition has_mid :: "frame \<Rightarrow> bool" where
  "has_mid df = (''bid'' \<in> set (columns df) \<and> ''ask'' \<in> set (columns df)
                 \<and> ''mid_price'' \<in> set (columns df) \<and> (\<forall>r \<in> set (records df). mid_ok r))"

text \<open>
  \<open>post_row r r'\<close>: \<open>r'\<close> is \<open>r\<close> after the three assignments of the post-processing,
  none of which raised.
\<close>

definition post_row :: "(string \<rightharpoonup> cell) \<Rightarrow> (string \<rightharpoonup> cell) \<Rightarrow> bool" where
  "post_row r r' =
     (\<exists>w u. astype_int (fillna0 (cell_at r ''volume'')) = Inr w
          \<and> astype_int (fillna0 (cell_at r ''open_interest'')) = Inr u
          \<and> r' = r(''iv'' \<mapsto> fillna0 (cell_at r ''iv''), ''volume'' \<mapsto> w, ''open_interest'' \<mapsto> u))"





subsection \<open>Sample data\<close>

text \<open>A contract with the given symbol, and a snapshot with the given bid and ask.\<close>

definition sample_contract :: "string \<Rightarrow> option_contract" where
  "sample_contract s =
     \<lparr>symbol = s, strike_price = 100, expiration_date = 20000, contract_type = CALL,
      contract_volume = None, contract_open_interest = None\<rparr>"

definition sample_snapshot :: "rat \<Rightarrow> rat \<Rightarrow> snapshot" where
  "sample_snapshot b a =
     \<lparr>latest_quote = Some \<lparr>bid_price = Some b, ask_price = Some a\<rparr>,
      latest_trade = Some \<lparr>price = Some b\<rparr>,
      snap_volume = Some 7, snap_open_interest = Some 11, implied_volatility = Some (1 / 4)\<rparr>"

definition sample_request :: contracts_request where
  "sample_request =
     \<lparr>underlying_symbols = [''V''], status = ACTIVE, expiration_date_lte = 20030,
      strike_price_gte = 90, strike_price_lte = 110, page_token = None\<rparr>"

text \<open>A provider with three pages of sizes 2, 1 and 3; the last one is a bare list.\<close>

definition three_pages :: "contracts_request \<Rightarrow> error + contracts_response" where
  "three_pages r =
     (if page_token r = None
      then Inr (Paged [sample_contract ''A1'', sample_contract ''A2''] (Some ''t1''))
      else if page_token r = Some ''t1''
      then Inr (Paged [sample_contract ''A3''] (Some ''t2''))
      else Inr (Bare [sample_contract ''A4'', sample_contract ''A5'', sample_contract ''A6'']))"

text \<open>
  Forty-five contract symbols and seven more; a snapshot provider that raises for the
  batch holding \<open>S25\<close> and otherwise answers for exactly the symbols it is asked for.
\<close>

definition sample_symbols :: "string list" where
  "sample_symbols =
    [''S01'', ''S02'', ''S03'', ''S04'', ''S05'', ''S06'', ''S07'', ''S08'', ''S09'',
     ''S10'', ''S11'', ''S12'', ''S13'', ''S14'', ''S15'', ''S16'', ''S17'', ''S18'',
     ''S19'', ''S20'', ''S21'', ''S22'', ''S23'', ''S24'', ''S25'', ''S26'', ''S27'',
     ''S28'', ''S29'', ''S30'', ''S31'', ''S32'', ''S33'', ''S34'', ''S35'', ''S36'',
     ''S37'', ''S38'', ''S39'', ''S40'', ''S41'', ''S42'', ''S43'', ''S44'', ''S45'']"

definition more_symbols :: "string list" where
  "more_symbols =
    [''S46'', ''S47'', ''S48'', ''S49'', ''S50'', ''S51'', ''S52'']"

definition flaky :: "string list \<Rightarrow> error + (string \<rightharpoonup> snapshot)" where
  "flaky b = (if ''S25'' \<in> set b then Inl ProviderError
              else Inr (\<lambda>s. if s \<in> set b then Some (sample_snapshot 1 3) else None))"

definition sample_env :: alpaca_env where
  "sample_env =
     \<lparr>yf_Ticker = (\<lambda>t. Inr \<lparr>fast_last_price = Inr (Some 100), history_close = Inr []\<rparr>),
      get_option_contracts = three_pages,
      get_option_snapshot = (\<lambda>b. Inr (\<lambda>s. if s = ''A1'' \<and> s \<in> set b
                                          then Some (sample_snapshot 1 3) else None)),
      now = \<lparr>day = 20000, tod = 0\<rparr>,
      strftime_now = ''20241004_1200'',
      to_csv_fails = (\<lambda>f. False)\<rparr>"

text \<open>Fifty-two contracts in one bare page, and a provider with a snapshot for every symbol asked.\<close>

definition many_contracts :: "option_contract list" where
  "many_contracts = map sample_contract (sample_symbols @ more_symbols)"

definition generous_env :: alpaca_env where
  "generous_env = sample_env
     \<lparr>get_option_contracts := (\<lambda>r. Inr (Bare many_contracts)),
      get_option_snapshot := (\<lambda>b. Inr (\<lambda>s. if s \<in> set b then Some (sample_snapshot 1 3) else None))\<rparr>"

text \<open>
  A provider for yf\_ochains.py: three expirations, of which only the first can be
  fetched; its chain has a call without quotes and with a negative volume (\<open>C2\<close>)
  and a call without a strike (\<open>C3\<close>). \<open>raw_frame\<close> is a frame as the
  post-processing receives it.
\<close>

definition yf_columns :: "string list" where
  "yf_columns = [''contractSymbol'', ''strike'', ''lastPrice'', ''bid'', ''ask'', ''volume'',
                 ''openInterest'', ''impliedVolatility'']"

definition yf_row :: "string \<Rightarrow> cell \<Rightarrow> cell \<Rightarrow> cell \<Rightarrow> cell \<Rightarrow> (string \<rightharpoonup> cell)" where
  "yf_row code k b a v =
     [''contractSymbol'' \<mapsto> Str code, ''strike'' \<mapsto> k, ''lastPrice'' \<mapsto> Num 1, ''bid'' \<mapsto> b,
      ''ask'' \<mapsto> a, ''volume'' \<mapsto> v, ''openInterest'' \<mapsto> NaN, ''impliedVolatility'' \<mapsto> NaN]"

definition sample_chain :: option_chain where
  "sample_chain =
     \<lparr>chain_calls = \<lparr>columns = yf_columns,
                     records = [yf_row ''C1'' (Num 100) (Num 1) (Num 3) (Num (25 / 2)),
                                yf_row ''C2'' (Num 105) NaN NaN (Num (- 3)),
                                yf_row ''C3'' NaN (Num 1) (Num 2) NaN]\<rparr>,
      chain_puts = \<lparr>columns = yf_columns,
                    records = [yf_row ''P1'' (Num 95) (Num 2) (Num 4) NaN]\<rparr>\<rparr>"

definition sample_yf_env :: yf_env where
  "sample_yf_env =
     \<lparr>stock_options = (\<lambda>tk. if tk = ''NONE'' then Inr [] else if tk = ''DOWN'' then Inl ProviderError
                             else Inr [20005, 20040, 20050]),
      stock_option_chain = (\<lambda>tk d. if d = 20005 then Inr sample_chain else Inl ProviderError),
      clock = \<lparr>day = 20000, tod = 4500\<rparr>,
      run_ts = ''20241004_093000'',
      write_fails = (\<lambda>f. False)\<rparr>"



definition empty_env :: alpaca_env where
  "empty_env = sample_env\<lparr>get_option_contracts := (\<lambda>r. Inr (Bare []))\<rparr>"


section \<open>Properties\<close>

subsection \<open>The price oracle\<close>

text \<open>
  Claim C6. The price oracle returns the fast price when it is present and positive;
  when the fast price is \<open>None\<close> or not positive it returns the most recent daily
  close; and whenever something raises (the ticker object, the fast field or the history
  cannot be read, or the history is empty) it returns 90.0 and prints one warning.
  The oracle has no exceptional result: its value is always a price.
\<close>

theorem price_oracle_cases:
  "(lookup tk = Inr q \<and> fast_last_price q = Inr (Some p) \<and> 0 < p
      \<longrightarrow> get_current_price_yf lookup tk = (p, []))
   \<and> (lookup tk = Inr q
        \<and> (fast_last_price q = Inr None \<or> (fast_last_price q = Inr (Some p) \<and> p \<le> 0))
        \<and> history_close q = Inr closes \<and> closes \<noteq> []
      \<longrightarrow> get_current_price_yf lookup tk = (last closes, []))
   \<and> (lookup tk = Inl e
      \<longrightarrow> get_current_price_yf lookup tk = (90, [PriceWarning tk e]))
   \<and> (lookup tk = Inr q \<and> fast_last_price q = Inl e
      \<longrightarrow> get_current_price_yf lookup tk = (90, [PriceWarning tk e]))
   \<and> (lookup tk = Inr q
        \<and> (fast_last_price q = Inr None \<or> (fast_last_price q = Inr (Some p) \<and> p \<le> 0))
        \<and> history_close q = Inl e
      \<longrightarrow> get_current_price_yf lookup tk = (90, [PriceWarning tk e]))
   \<and> (lookup tk = Inr q
        \<and> (fast_last_price q = Inr None \<or> (fast_last_price q = Inr (Some p) \<and> p \<le> 0))
        \<and> history_close q = Inr []
      \<longrightarrow> get_current_price_yf lookup tk = (90, [PriceWarning tk IndexError]))"
  by (auto simp: get_current_price_yf_def current_price_body_def iloc_last_def)

theorem price_oracle_cases_witness:
  "get_current_price_yf
     (\<lambda>t. Inr \<lparr>fast_last_price = Inr (Some 150), history_close = Inr [149]\<rparr>) ''V'' = (150, [])
   \<and> get_current_price_yf
     (\<lambda>t. Inr \<lparr>fast_last_price = Inr (Some (- 1)), history_close = Inr [148, 149]\<rparr>) ''V''
       = (149, [])
   \<and> get_current_price_yf
     (\<lambda>t. Inr \<lparr>fast_last_price = Inr None, history_close = Inl ProviderError\<rparr>) ''V''
       = (90, [PriceWarning ''V'' ProviderError])
   \<and> get_current_price_yf
     (\<lambda>t. Inr \<lparr>fast_last_price = Inr (Some 0), history_close = Inr []\<rparr>) ''V''
       = (90, [PriceWarning ''V'' IndexError])
   \<and> get_current_price_yf (\<lambda>t. Inl ProviderError) ''V''
       = (90, [PriceWarning ''V'' ProviderError])"
  using
    price_oracle_cases [of "\<lambda>t. Inr \<lparr>fast_last_price = Inr (Some 150), history_close = Inr [149]\<rparr>"
      "''V''" "\<lparr>fast_last_price = Inr (Some 150), history_close = Inr [149]\<rparr>" 150 "[]" ProviderError]
    price_oracle_cases [of "\<lambda>t. Inr \<lparr>fast_last_price = Inr (Some (- 1)), history_close = Inr [148, 149]\<rparr>"
      "''V''" "\<lparr>fast_last_price = Inr (Some (- 1)), history_close = Inr [148, 149]\<rparr>" "- 1"
      "[148, 149]" ProviderError]
    price_oracle_cases [of "\<lambda>t. Inr \<lparr>fast_last_price = Inr None, history_close = Inl ProviderError\<rparr>"
      "''V''" "\<lparr>fast_last_price = Inr None, history_close = Inl ProviderError\<rparr>" 0 "[]" ProviderError]
    price_oracle_cases [of "\<lambda>t. Inr \<lparr>fast_last_price = Inr (Some 0), history_close = Inr []\<rparr>"
      "''V''" "\<lparr>fast_last_price = Inr (Some 0), history_close = Inr []\<rparr>" 0 "[]" ProviderError]
    price_oracle_cases [of "\<lambda>t. Inl ProviderError" "''V''" _ 0 "[]" ProviderError]
  by simp

subsection \<open>Contract discovery\<close>

lemma discovery_loop_serves:
  "serves get (if truthy tok then req\<lparr>page_token := tok\<rparr> else req) pages
   \<Longrightarrow> discovery_loop get req tok acc = Some (Inr (acc @ concat (map (fst \<circ> unpack) pages)))"
proof (induction pages arbitrary: req tok acc)
  case Nil
  then show ?case by simp
next
  case (Cons r rs)
  let ?req = "if truthy tok then req\<lparr>page_token := tok\<rparr> else req"
  show ?case
  proof (cases rs)
    case Nil
    with Cons.prems have "get ?req = Inr r" "\<not> truthy (snd (unpack r))" by simp_all
    then show ?thesis using Nil
      by (subst discovery_loop.simps) simp
  next
    case (Cons r' rs')
    with Cons.prems have g: "get ?req = Inr r" and t: "truthy (snd (unpack r))"
      and s: "serves get (?req\<lparr>page_token := snd (unpack r)\<rparr>) rs" by simp_all
    from s t have "serves get (if truthy (snd (unpack r))
                               then ?req\<lparr>page_token := snd (unpack r)\<rparr> else ?req) rs"
      by simp
    from Cons.IH [OF this]
    have "discovery_loop get ?req (snd (unpack r)) (acc @ fst (unpack r))
            = Some (Inr ((acc @ fst (unpack r)) @ concat (map (fst \<circ> unpack) rs)))" .
    then show ?thesis using g t
      by (subst discovery_loop.simps) simp
  qed
qed

text \<open>
  Claim C3. When the provider serves the pages \<open>pages\<close>, the last of which carries no
  continuation token (as a tuple or as a bare list), the discovery loop returns, and
  what it returns is the contracts of all pages, page after page, each page in its own
  order; their number is the sum of the page sizes.
\<close>

theorem discovery_accumulates_pages:
  "serves get req pages \<Longrightarrow>
     discovery_loop get req None [] = Some (Inr (concat (map (fst \<circ> unpack) pages)))
     \<and> length (concat (map (fst \<circ> unpack) pages))
         = sum_list (map (\<lambda>p. length (fst (unpack p))) pages)"
proof -
  assume "serves get req pages"
  then have "serves get (if truthy None then req\<lparr>page_token := None\<rparr> else req) pages"
    by (simp add: truthy_def)
  from discovery_loop_serves [OF this, of "[]"]
  show ?thesis
    by (simp add: length_concat comp_def)
qed

theorem discovery_accumulates_pages_witness:
  "serves three_pages sample_request
     [Paged [sample_contract ''A1'', sample_contract ''A2''] (Some ''t1''),
      Paged [sample_contract ''A3''] (Some ''t2''),
      Bare [sample_contract ''A4'', sample_contract ''A5'', sample_contract ''A6'']]
   \<and> discovery_loop three_pages sample_request None []
       = Some (Inr [sample_contract ''A1'', sample_contract ''A2'', sample_contract ''A3'',
                    sample_contract ''A4'', sample_contract ''A5'', sample_contract ''A6''])"
proof -
  have h: "serves three_pages sample_request
     [Paged [sample_contract ''A1'', sample_contract ''A2''] (Some ''t1''),
      Paged [sample_contract ''A3''] (Some ''t2''),
      Bare [sample_contract ''A4'', sample_contract ''A5'', sample_contract ''A6'']]"
    by (simp add: three_pages_def sample_request_def truthy_def unpack_def)
  show ?thesis
    using h discovery_accumulates_pages [OF h] by (simp add: unpack_def)
qed

subsection \<open>Snapshot enrichment\<close>

lemma step20: "i < stop \<Longrightarrow> (stop - i + 19) div 20 = Suc ((stop - (i + 20) + 19) div 20)" for i stop :: nat
proof (cases "i + 20 \<le> stop")
  case True
  then obtain d where d: "stop = i + 20 + d" using le_Suc_ex by blast
  have "(20 + d + 19) div 20 = Suc ((d + 19) div 20)" by simp
  with d show ?thesis by simp
next
  case False
  assume "i < stop"
  with False have "stop - (i + 20) = 0" and "20 \<le> stop - i + 19" and "stop - i + 19 < 40" by simp_all
  then show ?thesis by simp
qed


lemma py_range_length: "length (py_range i stop 20) = (stop - i + 19) div 20"
proof (induction i stop "20::nat" rule: py_range.induct)
  case (1 i stop)
  show ?case
  proof (cases "i < stop")
    case True
    then have "(stop - i + 19) div 20 = Suc ((stop - (i + 20) + 19) div 20)" by (rule step20)
    with True 1 show ?thesis by (subst py_range.simps) simp
  next
    case False
    then show ?thesis by (subst py_range.simps) simp
  qed
qed

lemma py_range_nth: "k < length (py_range i stop 20) \<Longrightarrow> py_range i stop 20 ! k = i + 20 * k"
proof (induction i stop "20::nat" arbitrary: k rule: py_range.induct)
  case (1 i stop)
  show ?case
  proof (cases "i < stop")
    case True
    show ?thesis
    proof (cases k)
      case 0
      with True show ?thesis by (subst py_range.simps) simp
    next
      case (Suc k')
      have unf: "py_range i stop 20 = i # py_range (i + 20) stop 20"
        using True by (subst py_range.simps) simp
      with Suc "1.prems" have "k' < length (py_range (i + 20) stop 20)" by simp
      with True have "py_range (i + 20) stop 20 ! k' = i + 20 + 20 * k'" using "1.hyps" by simp
      with unf Suc show ?thesis by simp
    qed
  next
    case False
    then have "py_range i stop 20 = []" by (subst py_range.simps) simp
    with "1.prems" show ?thesis by simp
  qed
qed

lemma concat_batches: "concat (map (\<lambda>i. take 20 (drop i xs)) (py_range i (length xs) 20)) = drop i xs"
proof (induction i "length xs" "20::nat"  rule: py_range.induct)
  case (1 i)
  show ?case
  proof (cases "i < length xs")
    case True
    have "take 20 (drop i xs) @ drop (i + 20) xs = drop i xs"
      by (metis add.commute append_take_drop_id drop_drop)
    with True 1 show ?thesis by (subst py_range.simps) simp
  next
    case False
    then show ?thesis by (subst py_range.simps) simp
  qed
qed

lemma requests_foldl:
  "requests (foldl (snapshot_step get tk symbols) st js)
     = requests st @ map (\<lambda>i. take 20 (drop i symbols)) js"
  by (induction js arbitrary: st) (auto simp: snapshot_step_def Let_def split: sum.splits)

lemma printed_foldl:
  "printed (foldl (snapshot_step get tk symbols) st js)
     = printed st @ concat (map (\<lambda>i. case get (take 20 (drop i symbols)) of
                                          Inl e \<Rightarrow> [BatchFailed (i div 20) tk e] | Inr snaps \<Rightarrow> []) js)"
  by (induction js arbitrary: st) (auto simp: snapshot_step_def Let_def split: sum.splits)

lemma all_snaps_foldl_successes:
  "all_snaps (foldl (snapshot_step get tk symbols) st js)
     = foldl (++) (all_snaps st)
         (concat (map (\<lambda>i. case get (take 20 (drop i symbols)) of
                               Inl e \<Rightarrow> [] | Inr snaps \<Rightarrow> [snaps]) js))"
  by (induction js arbitrary: st) (auto simp: snapshot_step_def Let_def split: sum.splits)

lemma all_snaps_foldl_other:
  assumes "\<And>b snaps. get b = Inr snaps \<Longrightarrow> dom snaps \<subseteq> set b"
    and "s \<notin> set (concat (map (\<lambda>i. take 20 (drop i symbols)) js))"
  shows "all_snaps (foldl (snapshot_step get tk symbols) st js) s = all_snaps st s"
  using assms(2)
proof (induction js arbitrary: st)
  case Nil
  then show ?case by simp
next
  case (Cons i rest)
  then have a: "s \<notin> set (take 20 (drop i symbols))" and b: "s \<notin> set (concat (map (\<lambda>i. take 20 (drop i symbols)) rest))"
    by simp_all
  have "all_snaps (snapshot_step get tk symbols st i) s = all_snaps st s"
  proof (cases "get (take 20 (drop i symbols))")
    case (Inl e)
    then show ?thesis by (simp add: snapshot_step_def)
  next
    case (Inr snaps)
    with assms(1) a have "snaps s = None" by blast
    with Inr show ?thesis by (simp add: snapshot_step_def map_add_def)
  qed
  with Cons.IH [OF b] show ?case by simp
qed

lemma all_snaps_foldl_own:
  assumes ok: "\<And>b snaps. get b = Inr snaps \<Longrightarrow> dom snaps \<subseteq> set b"
    and "distinct (concat (map (\<lambda>i. take 20 (drop i symbols)) js))"
    and "i \<in> set js" and "s \<in> set (take 20 (drop i symbols))"
  shows "all_snaps (foldl (snapshot_step get tk symbols) st js) s
           = (case get (take 20 (drop i symbols)) of
                Inr snaps \<Rightarrow> (case snaps s of Some v \<Rightarrow> Some v | None \<Rightarrow> all_snaps st s)
              | Inl e \<Rightarrow> all_snaps st s)"
  using assms(2-)
proof (induction js arbitrary: st)
  case Nil
  then show ?case by simp
next
  case (Cons j rest)
  let ?st = "snapshot_step get tk symbols st j"
  from Cons.prems(1) have d: "distinct (concat (map (\<lambda>i. take 20 (drop i symbols)) rest))"
    and disj: "set (take 20 (drop j symbols)) \<inter> set (concat (map (\<lambda>i. take 20 (drop i symbols)) rest)) = {}"
    by simp_all
  show ?case
  proof (cases "s \<in> set (take 20 (drop j symbols))")
    case True
    with disj have "s \<notin> set (concat (map (\<lambda>i. take 20 (drop i symbols)) rest))" by blast
    from all_snaps_foldl_other [OF ok this]
    have 1: "all_snaps (foldl (snapshot_step get tk symbols) ?st rest) s = all_snaps ?st s" .
    have ij: "take 20 (drop i symbols) = take 20 (drop j symbols)"
    proof (cases "i = j")
      case True then show ?thesis by simp
    next
      case False
      with Cons.prems(2) have "i \<in> set rest" by simp
      with Cons.prems(3) have "s \<in> set (concat (map (\<lambda>i. take 20 (drop i symbols)) rest))" by auto
      with \<open>s \<notin> set (concat (map (\<lambda>i. take 20 (drop i symbols)) rest))\<close> show ?thesis by simp
    qed
    have "all_snaps ?st s = (case get (take 20 (drop j symbols)) of
                Inr snaps \<Rightarrow> (case snaps s of Some v \<Rightarrow> Some v | None \<Rightarrow> all_snaps st s)
              | Inl e \<Rightarrow> all_snaps st s)"
      by (simp add: snapshot_step_def map_add_def split: sum.splits option.splits)
    with 1 ij show ?thesis by simp
  next
    case False
    then have "i \<noteq> j" using Cons.prems(3) by auto
    with Cons.prems(2) have "i \<in> set rest" by simp
    from Cons.IH [OF d this Cons.prems(3)]
    have 2: "all_snaps (foldl (snapshot_step get tk symbols) ?st rest) s
           = (case get (take 20 (drop i symbols)) of
                Inr snaps \<Rightarrow> (case snaps s of Some v \<Rightarrow> Some v | None \<Rightarrow> all_snaps ?st s)
              | Inl e \<Rightarrow> all_snaps ?st s)" .
    have "all_snaps ?st s = all_snaps st s"
      using all_snaps_foldl_other [OF ok, where s = s and symbols = symbols and js = "[j]" and tk = tk and st = st] False by simp
    with 2 show ?thesis by (simp split: sum.splits option.splits)
  qed
qed

lemma fetch_snapshots_requests:
  "requests (fetch_snapshots get tk symbols) = map (\<lambda>i. take 20 (drop i symbols)) (py_range 0 (length symbols) 20)"
  by (simp add: fetch_snapshots_def requests_foldl)

lemma fetch_snapshots_own:
  assumes ok: "\<And>b snaps. get b = Inr snaps \<Longrightarrow> dom snaps \<subseteq> set b"
    and d: "distinct symbols"
    and b: "b \<in> set (requests (fetch_snapshots get tk symbols))" and s: "s \<in> set b"
  shows "all_snaps (fetch_snapshots get tk symbols) s
           = (case get b of Inr snaps \<Rightarrow> snaps s | Inl e \<Rightarrow> None)"
proof -
  from b obtain i where i: "i \<in> set (py_range 0 (length symbols) 20)" and bi: "b = take 20 (drop i symbols)"
    by (auto simp: fetch_snapshots_requests)
  have "distinct (concat (map (\<lambda>i. take 20 (drop i symbols)) (py_range 0 (length symbols) 20)))"
    using d by (simp add: concat_batches)
  from all_snaps_foldl_own [OF ok this i, where s = s and tk = tk] s bi
  show ?thesis
    by (simp add: fetch_snapshots_def split: sum.splits option.splits)
qed

lemma fetch_snapshots_other:
  assumes ok: "\<And>b snaps. get b = Inr snaps \<Longrightarrow> dom snaps \<subseteq> set b"
    and s: "s \<notin> set symbols"
  shows "all_snaps (fetch_snapshots get tk symbols) s = None"
proof -
  have "s \<notin> set (concat (map (\<lambda>i. take 20 (drop i symbols)) (py_range 0 (length symbols) 20)))"
    using s by (simp add: concat_batches)
  from all_snaps_foldl_other [OF ok this]
  show ?thesis by (simp add: fetch_snapshots_def)
qed

lemma make_row_no_snapshot: "snaps (symbol c) = None \<Longrightarrow> market_zero (make_row tk t snaps c)"
  by (simp add: make_row_def market_fields_def market_zero_def py_int_def)


lemma batch_failed_printed:
  assumes "k < length (requests (fetch_snapshots get tk symbols))"
    and "get (requests (fetch_snapshots get tk symbols) ! k) = Inl e"
  shows "BatchFailed k tk e \<in> set (printed (fetch_snapshots get tk symbols))"
proof -
  let ?is = "py_range 0 (length symbols) 20"
  let ?f = "\<lambda>i. case get (take 20 (drop i symbols)) of
                  Inl e \<Rightarrow> [BatchFailed (i div 20) tk e] | Inr snaps \<Rightarrow> []"
  from assms(1) have k: "k < length ?is" by (simp add: fetch_snapshots_requests)
  then have nth: "?is ! k = 20 * k" using py_range_nth [of k 0 "length symbols"] by simp
  from k have "requests (fetch_snapshots get tk symbols) ! k = take 20 (drop (?is ! k) symbols)"
    by (simp add: fetch_snapshots_requests)
  with assms(2) nth have "BatchFailed k tk e \<in> set (?f (?is ! k))" by simp
  moreover from k have "?is ! k \<in> set ?is" by simp
  ultimately have "\<exists>i \<in> set ?is. BatchFailed k tk e \<in> set (?f i)" by (rule bexI)
  then have "BatchFailed k tk e \<in> set (concat (map ?f ?is))"
    unfolding set_concat set_map by blast
  then show ?thesis by (simp add: fetch_snapshots_def printed_foldl)
qed

text \<open>
  Claim C4. For any list of symbols the enrichment loop hands \<open>\<lceil>n/20\<rceil>\<close> batches to the
  provider, each of at most 20 symbols, which together are the list (3 batches for 45
  symbols). A batch that raises is reported by its index and the loop goes on: the
  dictionary kept is the successive update by the answers of the batches that did not
  raise. When the
  symbols are distinct and the provider answers only for symbols it was asked for, the
  snapshot kept for a symbol is the one in the answer to its own batch, whatever the
  other batches did; a symbol of a failed batch has none, and its row has all market
  fields zero.
\<close>

theorem snapshot_batching:
  "length (requests (fetch_snapshots get tk symbols)) = (length symbols + 19) div 20
   \<and> (\<forall>b \<in> set (requests (fetch_snapshots get tk symbols)). length b \<le> 20)
   \<and> concat (requests (fetch_snapshots get tk symbols)) = symbols
   \<and> (length symbols = 45 \<longrightarrow> length (requests (fetch_snapshots get tk symbols)) = 3)
   \<and> (\<forall>k e. k < length (requests (fetch_snapshots get tk symbols))
              \<and> get (requests (fetch_snapshots get tk symbols) ! k) = Inl e
          \<longrightarrow> BatchFailed k tk e \<in> set (printed (fetch_snapshots get tk symbols)))
   \<and> all_snaps (fetch_snapshots get tk symbols)
       = foldl (++) Map.empty
           (concat (map (\<lambda>b. case get b of Inl e \<Rightarrow> [] | Inr snaps \<Rightarrow> [snaps])
                      (requests (fetch_snapshots get tk symbols))))
   \<and> (distinct symbols \<and> (\<forall>b snaps. get b = Inr snaps \<longrightarrow> dom snaps \<subseteq> set b)
        \<longrightarrow> (\<forall>b \<in> set (requests (fetch_snapshots get tk symbols)). \<forall>s \<in> set b.
               all_snaps (fetch_snapshots get tk symbols) s
                 = (case get b of Inr snaps \<Rightarrow> snaps s | Inl e \<Rightarrow> None)
               \<and> ((\<exists>e. get b = Inl e)
                    \<longrightarrow> (\<forall>c. symbol c = s
                          \<longrightarrow> market_zero (make_row tk t (all_snaps (fetch_snapshots get tk symbols)) c)))))"
proof -
  let ?st = "fetch_snapshots get tk symbols"
  have 1: "length (requests ?st) = (length symbols + 19) div 20"
    by (simp add: fetch_snapshots_requests py_range_length)
  have 2: "\<forall>b \<in> set (requests ?st). length b \<le> 20"
    by (auto simp: fetch_snapshots_requests)
  have 3: "concat (requests ?st) = symbols"
    using concat_batches [of symbols 0] by (simp add: fetch_snapshots_requests)
  have 4: "length symbols = 45 \<longrightarrow> length (requests ?st) = 3"
    using 1 by simp
  have 5: "\<forall>k e. k < length (requests ?st) \<and> get (requests ?st ! k) = Inl e
          \<longrightarrow> BatchFailed k tk e \<in> set (printed ?st)"
    using batch_failed_printed by blast
  have 6: "\<forall>b \<in> set (requests ?st). \<forall>s \<in> set b.
               all_snaps ?st s = (case get b of Inr snaps \<Rightarrow> snaps s | Inl e \<Rightarrow> None)
               \<and> ((\<exists>e. get b = Inl e)
                    \<longrightarrow> (\<forall>c::option_contract. symbol c = s
                           \<longrightarrow> market_zero (make_row tk t (all_snaps ?st) c)))"
    if d: "distinct symbols" and ok: "\<forall>b snaps. get b = Inr snaps \<longrightarrow> dom snaps \<subseteq> set b"
  proof (intro ballI conjI impI allI)
    fix b s assume b: "b \<in> set (requests ?st)" and s: "s \<in> set b"
    from ok have ok': "\<And>b snaps. get b = Inr snaps \<Longrightarrow> dom snaps \<subseteq> set b" by blast
    show own: "all_snaps ?st s = (case get b of Inr snaps \<Rightarrow> snaps s | Inl e \<Rightarrow> None)"
      by (rule fetch_snapshots_own [OF ok' d b s])
    fix c :: option_contract assume "\<exists>e. get b = Inl e" and "symbol c = s"
    with own have "all_snaps ?st (symbol c) = None" by auto
    then show "market_zero (make_row tk t (all_snaps ?st) c)" by (rule make_row_no_snapshot)
  qed
  from 6 have 7: "distinct symbols \<and> (\<forall>b snaps. get b = Inr snaps \<longrightarrow> dom snaps \<subseteq> set b)
        \<longrightarrow> (\<forall>b \<in> set (requests ?st). \<forall>s \<in> set b.
               all_snaps ?st s = (case get b of Inr snaps \<Rightarrow> snaps s | Inl e \<Rightarrow> None)
               \<and> ((\<exists>e. get b = Inl e)
                    \<longrightarrow> (\<forall>c::option_contract. symbol c = s
                           \<longrightarrow> market_zero (make_row tk t (all_snaps ?st) c))))"
    by (intro impI) (erule conjE)
  have "all_snaps ?st
       = foldl (++) Map.empty
           (concat (map (\<lambda>i. case get (take 20 (drop i symbols)) of
                                 Inl e \<Rightarrow> [] | Inr snaps \<Rightarrow> [snaps])
                      (py_range 0 (length symbols) 20)))"
    by (simp add: fetch_snapshots_def all_snaps_foldl_successes)
  then have 8: "all_snaps ?st
       = foldl (++) Map.empty
           (concat (map (\<lambda>b. case get b of Inl e \<Rightarrow> [] | Inr snaps \<Rightarrow> [snaps])
                      (requests ?st)))"
    by (simp only: fetch_snapshots_requests map_map comp_def)
  from 1 2 3 4 5 8 7 show ?thesis by (intro conjI)
qed

lemma flaky_ok: "\<forall>b snaps. flaky b = Inr snaps \<longrightarrow> dom snaps \<subseteq> set b"
  by (auto simp: flaky_def dom_def split: if_splits)

theorem snapshot_batching_witness:
  "distinct sample_symbols
   \<and> length sample_symbols = 45
   \<and> length (requests (fetch_snapshots flaky ''V'' sample_symbols)) = 3
   \<and> BatchFailed 1 ''V'' ProviderError \<in> set (printed (fetch_snapshots flaky ''V'' sample_symbols))
   \<and> all_snaps (fetch_snapshots flaky ''V'' sample_symbols) ''S05'' = Some (sample_snapshot 1 3)
   \<and> all_snaps (fetch_snapshots flaky ''V'' sample_symbols) ''S25'' = None
   \<and> all_snaps (fetch_snapshots flaky ''V'' sample_symbols) ''S45'' = Some (sample_snapshot 1 3)
   \<and> market_zero (make_row ''V'' \<lparr>day = 20000, tod = 0\<rparr>
         (all_snaps (fetch_snapshots flaky ''V'' sample_symbols)) (sample_contract ''S30''))"
proof -
  let ?st = "fetch_snapshots flaky ''V'' sample_symbols"
  let ?b0 = "take 20 (drop 0 sample_symbols)"
  let ?b1 = "take 20 (drop 20 sample_symbols)"
  let ?b2 = "take 20 (drop 40 sample_symbols)"
  note T = snapshot_batching [of flaky "''V''" sample_symbols "\<lparr>day = 20000, tod = 0\<rparr>"]
  have d: "distinct sample_symbols" by (simp add: sample_symbols_def)
  have len: "length sample_symbols = 45" by (simp add: sample_symbols_def)
  have req: "requests ?st = [?b0, ?b1, ?b2]"
    by (simp add: fetch_snapshots_requests len py_range.simps)
  have f0: "flaky ?b0 = Inr (\<lambda>s. if s \<in> set ?b0 then Some (sample_snapshot 1 3) else None)"
    by (simp add: sample_symbols_def flaky_def)
  have f1: "flaky ?b1 = Inl ProviderError"
    by (simp add: sample_symbols_def flaky_def)
  have f2: "flaky ?b2 = Inr (\<lambda>s. if s \<in> set ?b2 then Some (sample_snapshot 1 3) else None)"
    by (simp add: sample_symbols_def flaky_def)
  have s0: "''S05'' \<in> set ?b0" and s1: "''S25'' \<in> set ?b1" and s1': "''S30'' \<in> set ?b1"
    and s2: "''S45'' \<in> set ?b2"
    by (simp_all add: sample_symbols_def)
  from T len have n: "length (requests ?st) = 3" by blast
  from T have "\<forall>k e. k < length (requests ?st) \<and> flaky (requests ?st ! k) = Inl e
                 \<longrightarrow> BatchFailed k ''V'' e \<in> set (printed ?st)" by blast
  then have "1 < length (requests ?st) \<and> flaky (requests ?st ! 1) = Inl ProviderError
                 \<longrightarrow> BatchFailed 1 ''V'' ProviderError \<in> set (printed ?st)" by blast
  with req f1 have p: "BatchFailed 1 ''V'' ProviderError \<in> set (printed ?st)" by simp
  from T d flaky_ok have own: "\<forall>b \<in> set (requests ?st). \<forall>s \<in> set b.
       all_snaps ?st s = (case flaky b of Inr snaps \<Rightarrow> snaps s | Inl e \<Rightarrow> None)
       \<and> ((\<exists>e. flaky b = Inl e)
            \<longrightarrow> (\<forall>c. symbol c = s
                  \<longrightarrow> market_zero (make_row ''V'' \<lparr>day = 20000, tod = 0\<rparr> (all_snaps ?st) c)))"
    by blast
  have m0: "?b0 \<in> set (requests ?st)" and m1: "?b1 \<in> set (requests ?st)"
    and m2: "?b2 \<in> set (requests ?st)" by (simp_all add: req)
  from own m0 s0 have "all_snaps ?st ''S05'' = (case flaky ?b0 of Inr snaps \<Rightarrow> snaps ''S05'' | Inl e \<Rightarrow> None)"
    by blast
  with f0 s0 have a0: "all_snaps ?st ''S05'' = Some (sample_snapshot 1 3)" by simp
  from own m1 s1 have "all_snaps ?st ''S25'' = (case flaky ?b1 of Inr snaps \<Rightarrow> snaps ''S25'' | Inl e \<Rightarrow> None)"
    by blast
  with f1 have a1: "all_snaps ?st ''S25'' = None" by simp
  from own m2 s2 have "all_snaps ?st ''S45'' = (case flaky ?b2 of Inr snaps \<Rightarrow> snaps ''S45'' | Inl e \<Rightarrow> None)"
    by blast
  with f2 s2 have a2: "all_snaps ?st ''S45'' = Some (sample_snapshot 1 3)" by simp
  from own m1 s1' have "(\<exists>e. flaky ?b1 = Inl e)
            \<longrightarrow> (\<forall>c. symbol c = ''S30''
                  \<longrightarrow> market_zero (make_row ''V'' \<lparr>day = 20000, tod = 0\<rparr> (all_snaps ?st) c))"
    by blast
  with f1 have "\<forall>c. symbol c = ''S30''
                  \<longrightarrow> market_zero (make_row ''V'' \<lparr>day = 20000, tod = 0\<rparr> (all_snaps ?st) c)" by simp
  then have z: "market_zero (make_row ''V'' \<lparr>day = 20000, tod = 0\<rparr> (all_snaps ?st) (sample_contract ''S30''))"
    by (simp add: sample_contract_def)
  from d len n p a0 a1 a2 z show ?thesis by (intro conjI)
qed

subsection \<open>Row assembly\<close>

lemma three_pages_discovery:
  "page_token req = None \<Longrightarrow>
     discovery_loop three_pages req None []
       = Some (Inr [sample_contract ''A1'', sample_contract ''A2'', sample_contract ''A3'',
                    sample_contract ''A4'', sample_contract ''A5'', sample_contract ''A6''])"
proof -
  assume n: "page_token req = None"
  have "serves three_pages (if truthy None then req\<lparr>page_token := None\<rparr> else req)
     [Paged [sample_contract ''A1'', sample_contract ''A2''] (Some ''t1''),
      Paged [sample_contract ''A3''] (Some ''t2''),
      Bare [sample_contract ''A4'', sample_contract ''A5'', sample_contract ''A6'']]"
    using n by (simp add: three_pages_def truthy_def unpack_def)
  from discovery_loop_serves [OF this, of "[]"] show ?thesis by (simp add: unpack_def)
qed

lemma sample_env_discover:
  "fst (discover sample_env ''V'' 30 (1 / 10))
     = Some (Inr [sample_contract ''A1'', sample_contract ''A2'', sample_contract ''A3'',
                  sample_contract ''A4'', sample_contract ''A5'', sample_contract ''A6''])"
  by (simp add: discover_def sample_env_def split_def Let_def three_pages_discovery)

lemma symbol_sample_contract: "map symbol (map sample_contract xs) = xs"
  by (induction xs) (simp_all add: sample_contract_def)

lemma generous_env_discover:
  "fst (discover generous_env ''V'' 30 (1 / 10)) = Some (Inr many_contracts)"
  by (subst discover_def, subst discovery_loop.simps)
     (simp add: generous_env_def sample_env_def split_def Let_def unpack_def truthy_def)

lemma get_options_chain_snapshot_returns:
  "fst (discover env tk d p) = Some (Inr cs) \<Longrightarrow>
     get_options_chain_snapshot env tk d p
       = Some (Inr (fst (snapshot_rows env tk cs)),
               snd (discover env tk d p) @ snd (snapshot_rows env tk cs))"
  by (cases "discover env tk d p") (simp add: get_options_chain_snapshot_def)

lemma snapshot_rows_map:
  "fst (snapshot_rows env tk cs)
     = map (make_row tk (now env)
              (all_snaps (fetch_snapshots (get_option_snapshot env) tk (map symbol (take 50 cs))))) cs"
  by (simp add: snapshot_rows_def Let_def)

text \<open>
  Claim C5. Once discovery has returned the contracts \<open>cs\<close>, the function returns one
  row per contract, in the order of discovery: row \<open>i\<close> carries the symbol, strike,
  expiration and type of contract \<open>i\<close>, and when no snapshot is held for that symbol
  all its market fields are zero.
\<close>

theorem one_row_per_contract:
  "fst (discover env tk d p) = Some (Inr cs) \<Longrightarrow>
     (\<exists>rows pr. get_options_chain_snapshot env tk d p = Some (Inr rows, pr)
        \<and> length rows = length cs
        \<and> map option_code rows = map symbol cs
        \<and> (\<forall>i < length cs.
              ticker (rows ! i) = tk
              \<and> strike (rows ! i) = strike_price (cs ! i)
              \<and> exp_date (rows ! i) = expiration_date (cs ! i)
              \<and> option_type (rows ! i) = type_upper (contract_type (cs ! i))
              \<and> (all_snaps (fetch_snapshots (get_option_snapshot env) tk
                               (map symbol (take 50 cs))) (symbol (cs ! i)) = None
                   \<longrightarrow> market_zero (rows ! i))))"
proof -
  assume h: "fst (discover env tk d p) = Some (Inr cs)"
  let ?snaps = "all_snaps (fetch_snapshots (get_option_snapshot env) tk (map symbol (take 50 cs)))"
  let ?rows = "map (make_row tk (now env) ?snaps) cs"
  have 1: "get_options_chain_snapshot env tk d p
             = Some (Inr ?rows, snd (discover env tk d p) @ snd (snapshot_rows env tk cs))"
    using get_options_chain_snapshot_returns [OF h] by (simp add: snapshot_rows_map)
  have 2: "length ?rows = length cs" by simp
  have 3: "map option_code ?rows = map symbol cs" by (simp add: make_row_def Let_def)
  have 4: "\<forall>i < length cs.
              ticker (?rows ! i) = tk
              \<and> strike (?rows ! i) = strike_price (cs ! i)
              \<and> exp_date (?rows ! i) = expiration_date (cs ! i)
              \<and> option_type (?rows ! i) = type_upper (contract_type (cs ! i))
              \<and> (?snaps (symbol (cs ! i)) = None \<longrightarrow> market_zero (?rows ! i))"
    by (simp add: make_row_no_snapshot) (simp add: make_row_def Let_def)
  from 1 2 3 4 show ?thesis by blast
qed

theorem one_row_per_contract_witness:
  "fst (discover sample_env ''V'' 30 (1 / 10))
     = Some (Inr [sample_contract ''A1'', sample_contract ''A2'', sample_contract ''A3'',
                  sample_contract ''A4'', sample_contract ''A5'', sample_contract ''A6''])
   \<and> (\<exists>rows pr. get_options_chain_snapshot sample_env ''V'' 30 (1 / 10) = Some (Inr rows, pr)
         \<and> map option_code rows = [''A1'', ''A2'', ''A3'', ''A4'', ''A5'', ''A6'']
         \<and> strike (rows ! 1) = 100 \<and> market_zero (rows ! 1))"
proof -
  let ?cs = "[sample_contract ''A1'', sample_contract ''A2'', sample_contract ''A3'',
              sample_contract ''A4'', sample_contract ''A5'', sample_contract ''A6'']"
  have none: "all_snaps (fetch_snapshots (get_option_snapshot sample_env) ''V''
                 (map symbol (take 50 ?cs))) (symbol (?cs ! 1)) = None"
    by (simp add: fetch_snapshots_def py_range.simps snapshot_step_def sample_env_def
          sample_contract_def)
  from one_row_per_contract [OF sample_env_discover]
  obtain rows pr where r: "get_options_chain_snapshot sample_env ''V'' 30 (1 / 10) = Some (Inr rows, pr)"
    and m: "map option_code rows = map symbol ?cs"
    and a: "\<forall>i < length ?cs.
              ticker (rows ! i) = ''V''
              \<and> strike (rows ! i) = strike_price (?cs ! i)
              \<and> exp_date (rows ! i) = expiration_date (?cs ! i)
              \<and> option_type (rows ! i) = type_upper (contract_type (?cs ! i))
              \<and> (all_snaps (fetch_snapshots (get_option_snapshot sample_env) ''V''
                               (map symbol (take 50 ?cs))) (symbol (?cs ! i)) = None
                   \<longrightarrow> market_zero (rows ! i))"
    by blast
  from a have "strike (rows ! 1) = strike_price (?cs ! 1)
     \<and> (all_snaps (fetch_snapshots (get_option_snapshot sample_env) ''V''
                               (map symbol (take 50 ?cs))) (symbol (?cs ! 1)) = None
                   \<longrightarrow> market_zero (rows ! 1))" by simp
  with none have "strike (rows ! 1) = 100" and "market_zero (rows ! 1)"
    by (simp_all add: sample_contract_def)
  moreover from m have "map option_code rows = [''A1'', ''A2'', ''A3'', ''A4'', ''A5'', ''A6'']"
    by (simp add: sample_contract_def)
  ultimately show ?thesis using r sample_env_discover by simp
qed

text \<open>
  Claim C10. Only the symbols of the first 50 contracts are handed to the snapshot
  provider. With distinct symbols and a provider that answers only for the symbols it
  was asked for, every row from position 51 on has all market fields zero, whatever
  the provider holds for that contract.
\<close>

theorem only_first_fifty_enriched:
  "fst (discover env tk d p) = Some (Inr cs) \<Longrightarrow> distinct (map symbol cs) \<Longrightarrow>
   (\<forall>b snaps. get_option_snapshot env b = Inr snaps \<longrightarrow> dom snaps \<subseteq> set b) \<Longrightarrow>
     concat (requests (fetch_snapshots (get_option_snapshot env) tk (map symbol (take 50 cs))))
       = map symbol (take 50 cs)
     \<and> (\<exists>rows pr. get_options_chain_snapshot env tk d p = Some (Inr rows, pr)
          \<and> length rows = length cs
          \<and> (\<forall>i. 50 \<le> i \<and> i < length cs \<longrightarrow> market_zero (rows ! i)))"
proof -
  assume h: "fst (discover env tk d p) = Some (Inr cs)" and dist: "distinct (map symbol cs)"
    and ok: "\<forall>b snaps. get_option_snapshot env b = Inr snaps \<longrightarrow> dom snaps \<subseteq> set b"
  let ?symbols = "map symbol (take 50 cs)"
  let ?st = "fetch_snapshots (get_option_snapshot env) tk ?symbols"
  let ?rows = "map (make_row tk (now env) (all_snaps ?st)) cs"
  from ok have ok': "\<And>b snaps. get_option_snapshot env b = Inr snaps \<Longrightarrow> dom snaps \<subseteq> set b"
    by blast
  have 1: "concat (requests ?st) = ?symbols"
    using concat_batches [of ?symbols 0] by (simp add: fetch_snapshots_requests)
  have 2: "get_options_chain_snapshot env tk d p
             = Some (Inr ?rows, snd (discover env tk d p) @ snd (snapshot_rows env tk cs))"
    using get_options_chain_snapshot_returns [OF h] by (simp add: snapshot_rows_map)
  have 3: "market_zero (?rows ! i)" if i: "50 \<le> i" "i < length cs" for i
  proof -
    have "symbol (cs ! i) \<notin> set ?symbols"
    proof
      assume "symbol (cs ! i) \<in> set ?symbols"
      then obtain j where j: "j < length (take 50 cs)" and e: "symbol (take 50 cs ! j) = symbol (cs ! i)"
        by (auto simp: in_set_conv_nth)
      then have "j < 50" "j < length cs" by simp_all
      with e have "map symbol cs ! j = map symbol cs ! i" using i by simp
      moreover have "j < length (map symbol cs)" "i < length (map symbol cs)"
        using \<open>j < length cs\<close> i by simp_all
      ultimately have "j = i" using dist by (simp only: nth_eq_iff_index_eq)
      with \<open>j < 50\<close> i show False by simp
    qed
    from fetch_snapshots_other [OF ok' this]
    have "all_snaps ?st (symbol (cs ! i)) = None" .
    then have "market_zero (make_row tk (now env) (all_snaps ?st) (cs ! i))"
      by (rule make_row_no_snapshot)
    with i show ?thesis by simp
  qed
  have 4: "length ?rows = length cs" by simp
  from 1 2 3 4 show ?thesis by blast
qed

theorem only_first_fifty_enriched_witness:
  "fst (discover generous_env ''V'' 30 (1 / 10)) = Some (Inr many_contracts)
   \<and> distinct (map symbol many_contracts)
   \<and> (\<exists>rows pr. get_options_chain_snapshot generous_env ''V'' 30 (1 / 10) = Some (Inr rows, pr)
         \<and> length rows = 52 \<and> market_zero (rows ! 50) \<and> market_zero (rows ! 51))"
proof -
  have d: "distinct (map symbol many_contracts)"
    unfolding many_contracts_def symbol_sample_contract
    by (simp add: sample_symbols_def more_symbols_def)
  have ok: "\<forall>b snaps. get_option_snapshot generous_env b = Inr snaps \<longrightarrow> dom snaps \<subseteq> set b"
    by (auto simp: generous_env_def dom_def split: if_splits)
  have len: "length many_contracts = 52"
    by (simp add: many_contracts_def sample_symbols_def more_symbols_def)
  from only_first_fifty_enriched [OF generous_env_discover d ok]
  obtain rows pr where r: "get_options_chain_snapshot generous_env ''V'' 30 (1 / 10) = Some (Inr rows, pr)"
    and l: "length rows = length many_contracts"
    and z: "\<forall>i. 50 \<le> i \<and> i < length many_contracts \<longrightarrow> market_zero (rows ! i)"
    by blast
  from z len have "market_zero (rows ! 50)" and "market_zero (rows ! 51)" by simp_all
  with r l len generous_env_discover d show ?thesis by auto
qed

subsection \<open>yf\_ochains.py: the expiration filter\<close>

text \<open>
  Claim C7. With a horizon of \<open>n\<close> days the filter keeps exactly the expirations
  whose day is at most today plus \<open>n\<close>, whatever the time of day: of today+5, today+40
  and today+50 a horizon of 45 days keeps the first two, and today+45 itself is kept
  while today+46 is not.
\<close>

theorem expirations_within_horizon:
  "filter_expirations t (Some n) ds = filter (\<lambda>d. d \<le> day t + n) ds
   \<and> filter_expirations t (Some 45) [day t + 5, day t + 40, day t + 50] = [day t + 5, day t + 40]
   \<and> filter_expirations t (Some 45) [day t + 45, day t + 46] = [day t + 45]"
proof -
  have le: "datetime_le (strptime d) (plus_days t n) = (d \<le> day t + n)" for d n
    by (auto simp: datetime_le_def strptime_def plus_days_def)
  have 1: "filter_expirations t (Some n) ds = filter (\<lambda>d. d \<le> day t + n) ds" for n ds
    by (simp add: filter_expirations_def le)
  show ?thesis unfolding 1 by simp
qed

subsection \<open>yf\_ochains.py: frames\<close>

lemma sequence_Inr: "sequence xs = Inr ys \<Longrightarrow> xs = map Inr ys"
  by (induction xs arbitrary: ys) (auto split: sum.splits)


lemma set_foldl_union_columns:
  "set (foldl union_columns acc css) = set acc \<union> \<Union> (set ` set css)"
  by (induction css arbitrary: acc) (auto simp: union_columns_def)

lemma columns_concat_frames: "set (columns (concat_frames dfs)) = \<Union> (set ` columns ` set dfs)"
  by (simp add: concat_frames_def Let_def set_foldl_union_columns)

lemma records_concat_frames:
  "records (concat_frames dfs)
     = concat (map (\<lambda>df. map (reindex (columns (concat_frames dfs))) (records df)) dfs)"
  by (simp add: concat_frames_def Let_def)

lemma map_eq_zip: "map f xs = map g ys \<Longrightarrow> (x, y) \<in> set (zip xs ys) \<Longrightarrow> f x = g y"
proof (induction xs arbitrary: ys)
  case Nil
  then show ?case by simp
next
  case (Cons x' xs')
  then show ?case by (cases ys) auto
qed

lemma mid_select:
  assumes "mid_price_column g = Inr mids"
  shows "has_mid (select_columns
           (filter (\<lambda>c. c \<in> set (columns (set_column_cells ''mid_price'' mids g))) canonical_columns)
           (set_column_cells ''mid_price'' mids g))"
proof -
  let ?g6 = "set_column_cells ''mid_price'' mids g"
  let ?av = "filter (\<lambda>c. c \<in> set (columns ?g6)) canonical_columns"
  from assms have b: "''bid'' \<in> set (columns g)" and a: "''ask'' \<in> set (columns g)"
    and s: "sequence (map (\<lambda>r. mid_cell (cell_at r ''bid'') (cell_at r ''ask'')) (records g)) = Inr mids"
    by (auto simp: mid_price_column_def split: if_splits)
  from sequence_Inr [OF s]
  have m: "map (\<lambda>r. mid_cell (cell_at r ''bid'') (cell_at r ''ask'')) (records g) = map Inr mids" .
  have cols: "''bid'' \<in> set ?av" "''ask'' \<in> set ?av" "''mid_price'' \<in> set ?av"
    using a b by (auto simp: set_column_cells_def canonical_columns_def)
  have "mid_ok r'" if "r' \<in> set (records (select_columns ?av ?g6))" for r'
  proof -
    from that obtain r v where rv: "(r, v) \<in> set (zip (records g) mids)"
      and r': "r' = reindex ?av (r(''mid_price'' \<mapsto> v))"
      by (auto simp: select_columns_def set_column_cells_def)
    from map_eq_zip [OF m rv] have mc: "mid_cell (cell_at r ''bid'') (cell_at r ''ask'') = Inr v" .
    have "r' ''bid'' = Some (cell_at r ''bid'')" "r' ''ask'' = Some (cell_at r ''ask'')"
      "r' ''mid_price'' = Some v"
      unfolding r' using cols by (simp_all add: reindex_def cell_at_def)
    with mc show ?thesis unfolding mid_ok_def by blast
  qed
  with cols show ?thesis by (simp add: has_mid_def select_columns_def)
qed

lemma expiration_frame_has_mid: "expiration_frame env tk e = Inr f \<Longrightarrow> has_mid f"
  by (auto simp: expiration_frame_def Let_def mid_select split: sum.splits)

lemma fetch_expirations_has_mid:
  "\<forall>f \<in> set (fst acc). has_mid f \<Longrightarrow> \<forall>f \<in> set (fst (fetch_expirations env tk es acc)). has_mid f"
proof (induction es arbitrary: acc)
  case Nil
  then show ?case by simp
next
  case (Cons e es)
  obtain fs pr where acc: "acc = (fs, pr)" by (cases acc)
  show ?case
  proof (cases "expiration_frame env tk e")
    case (Inl err)
    with Cons.prems acc
    have "\<forall>f \<in> set (fst (fs, pr @ [FetchingExpiration e, ExpirationError e err])). has_mid f"
      by simp
    from Cons.IH [OF this] show ?thesis using Inl acc by simp
  next
    case (Inr f)
    with Cons.prems acc expiration_frame_has_mid [OF Inr]
    have "\<forall>f' \<in> set (fst (fs @ [f], pr @ [FetchingExpiration e])). has_mid f'"
      by simp
    from Cons.IH [OF this] show ?thesis using Inr acc by simp
  qed
qed

lemma concat_frames_mid_ok:
  assumes "\<forall>f \<in> set dfs. has_mid f" and "r \<in> set (records (concat_frames dfs))"
  shows "mid_ok r"
proof -
  let ?cs = "columns (concat_frames dfs)"
  from assms(2) obtain f r0 where f: "f \<in> set dfs" and r0: "r0 \<in> set (records f)"
    and r: "r = reindex ?cs r0"
    by (auto simp: records_concat_frames)
  from assms(1) f have hm: "has_mid f" by blast
  with f have "''bid'' \<in> set ?cs" "''ask'' \<in> set ?cs" "''mid_price'' \<in> set ?cs"
    by (auto simp: columns_concat_frames has_mid_def)
  moreover from hm r0 have "mid_ok r0" by (simp add: has_mid_def)
  ultimately show ?thesis unfolding r mid_ok_def
    by (auto simp: reindex_def cell_at_def)
qed

lemma list_all2_zip_update:
  assumes "map h rs = map Inr ws"
  shows "list_all2 (\<lambda>r r'. \<exists>w. h r = Inr w \<and> r' = r(c \<mapsto> w)) rs
           (map (\<lambda>(r, w). r(c \<mapsto> w)) (zip rs ws))"
  using assms
proof (induction rs arbitrary: ws)
  case Nil
  then show ?case by simp
next
  case (Cons r rs)
  then show ?case by (cases ws) auto
qed

lemma fill_and_cast_rel:
  assumes "fill_and_cast c df = Inr df'"
  shows "columns df' = columns df \<and> c \<in> set (columns df)
     \<and> list_all2 (\<lambda>r r'. \<exists>w. astype_int (fillna0 (cell_at r c)) = Inr w \<and> r' = r(c \<mapsto> w))
         (records df) (records df')"
proof -
  from assms have c: "c \<in> set (columns df)"
    by (auto simp: fill_and_cast_def get_column_def split: if_splits)
  with assms obtain ws where
    s: "sequence (map (\<lambda>v. astype_int (fillna0 v)) (map (\<lambda>r. cell_at r c) (records df))) = Inr ws"
    and d: "df' = set_column_cells c ws df"
    by (auto simp: fill_and_cast_def get_column_def split: sum.splits)
  from sequence_Inr [OF s]
  have "map (\<lambda>r. astype_int (fillna0 (cell_at r c))) (records df) = map Inr ws"
    by (simp add: comp_def)
  from list_all2_zip_update [OF this, of c] c d show ?thesis
    by (simp add: set_column_cells_def)
qed

lemma post_process_rel:
  assumes "post_process df = Inr df'"
  shows "columns df' = columns df
     \<and> list_all2 post_row (filter (\<lambda>r. cell_at r ''strike'' \<noteq> NaN) (records df)) (records df')"
proof -
  let ?kept = "filter (\<lambda>r. cell_at r ''strike'' \<noteq> NaN) (records df)"
  let ?df1 = "df\<lparr>records := ?kept\<rparr>"
  let ?df2 = "set_column_cells ''iv'' (map fillna0 (map (\<lambda>r. cell_at r ''iv'') ?kept)) ?df1"
  from assms have k: "''strike'' \<in> set (columns df)" and iv: "''iv'' \<in> set (columns df)"
    by (auto simp: post_process_def dropna_def get_column_def split: if_splits sum.splits)
  with assms obtain df3 where 3: "fill_and_cast ''volume'' ?df2 = Inr df3"
    and 4: "fill_and_cast ''open_interest'' df3 = Inr df'"
    by (auto simp: post_process_def dropna_def get_column_def split: sum.splits)
  have r2: "records ?df2 = map (\<lambda>r. r(''iv'' \<mapsto> fillna0 (cell_at r ''iv''))) ?kept"
    by (simp add: set_column_cells_def zip_map2 zip_same_conv_map comp_def)
  have c2: "columns ?df2 = columns df" using iv by (simp add: set_column_cells_def)
  from fill_and_cast_rel [OF 3] have c3: "columns df3 = columns ?df2"
    and l3: "list_all2 (\<lambda>r r'. \<exists>w. astype_int (fillna0 (cell_at r ''volume'')) = Inr w
                                    \<and> r' = r(''volume'' \<mapsto> w)) (records ?df2) (records df3)"
    by simp_all
  from fill_and_cast_rel [OF 4] have c4: "columns df' = columns df3"
    and l4: "list_all2 (\<lambda>r r'. \<exists>w. astype_int (fillna0 (cell_at r ''open_interest'')) = Inr w
                                    \<and> r' = r(''open_interest'' \<mapsto> w)) (records df3) (records df')"
    by simp_all
  from l3 have l3': "list_all2 (\<lambda>r r'. \<exists>w. astype_int (fillna0 (cell_at r ''volume'')) = Inr w
                        \<and> r' = r(''iv'' \<mapsto> fillna0 (cell_at r ''iv''), ''volume'' \<mapsto> w))
                     ?kept (records df3)"
    unfolding r2 by (simp add: list_all2_map1 cell_at_def)
  have "list_all2 post_row ?kept (records df')"
  proof (rule list_all2_trans [OF _ l3' l4])
    fix r r3 r' :: "string \<rightharpoonup> cell"
    assume "\<exists>w. astype_int (fillna0 (cell_at r ''volume'')) = Inr w
                        \<and> r3 = r(''iv'' \<mapsto> fillna0 (cell_at r ''iv''), ''volume'' \<mapsto> w)"
      and "\<exists>w. astype_int (fillna0 (cell_at r3 ''open_interest'')) = Inr w
                                    \<and> r' = r3(''open_interest'' \<mapsto> w)"
    then show "post_row r r'"
      by (auto simp: post_row_def cell_at_def)
  qed
  with c2 c3 c4 show ?thesis by simp
qed

lemma get_option_chain_output:
  "records (fst (get_option_chain env tk m)) = []
   \<or> (\<exists>fs. (\<forall>f \<in> set fs. has_mid f)
          \<and> post_process (concat_frames fs) = Inr (fst (get_option_chain env tk m)))"
proof (cases "stock_options env tk")
  case (Inl e)
  then show ?thesis
    by (simp add: get_option_chain_def option_chain_body_def empty_frame_def)
next
  case (Inr expirations)
  let ?kept = "filter_expirations (clock env) m expirations"
  let ?fetched = "fetch_expirations env tk ?kept ([], [FoundExpirations (length ?kept) tk])"
  have hm: "\<forall>f \<in> set (fst ?fetched). has_mid f"
    by (rule fetch_expirations_has_mid) simp
  show ?thesis
  proof (cases "post_process (concat_frames (fst ?fetched))")
    case (Inl e)
    with Inr show ?thesis
      by (simp add: get_option_chain_def option_chain_body_def empty_frame_def Let_def)
  next
    case r: (Inr df)
    show ?thesis
    proof (cases "expirations = [] \<or> fst ?fetched = []")
      case True
      with Inr show ?thesis
        by (auto simp: get_option_chain_def option_chain_body_def empty_frame_def Let_def
            split: sum.splits)
    next
      case False
      with Inr r have "fst (get_option_chain env tk m) = df"
        by (simp add: get_option_chain_def option_chain_body_def Let_def)
      with r hm show ?thesis by blast
    qed
  qed
qed


lemma post_row_mid_ok: "post_row r r' \<Longrightarrow> mid_ok r \<Longrightarrow> mid_ok r'"
  by (auto simp: post_row_def mid_ok_def)

lemma list_all2_in_set2: "list_all2 P xs ys \<Longrightarrow> y \<in> set ys \<Longrightarrow> \<exists>x \<in> set xs. P x y"
  by (induction rule: list_all2_induct) auto



text \<open>The sample data, evaluated once.\<close>

lemma sample_chain_cells:
  "length (records (fst (get_option_chain sample_yf_env ''V'' MAX_EXPIRY_DAYS))) = 3
   \<and> (records (fst (get_option_chain sample_yf_env ''V'' MAX_EXPIRY_DAYS)) ! 0) ''bid'' = Some (Num 1)
   \<and> (records (fst (get_option_chain sample_yf_env ''V'' MAX_EXPIRY_DAYS)) ! 0) ''ask'' = Some (Num 3)
   \<and> (records (fst (get_option_chain sample_yf_env ''V'' MAX_EXPIRY_DAYS)) ! 1) ''bid'' = Some NaN"
  by code_simp

lemma sample_rows_quotes:
  "length (fst (snapshot_rows sample_env ''V''
       [sample_contract ''A1'', sample_contract ''A2'', sample_contract ''A3'',
        sample_contract ''A4'', sample_contract ''A5'', sample_contract ''A6''])) = 6
   \<and> bid (fst (snapshot_rows sample_env ''V''
       [sample_contract ''A1'', sample_contract ''A2'', sample_contract ''A3'',
        sample_contract ''A4'', sample_contract ''A5'', sample_contract ''A6'']) ! 0) = 1
   \<and> ask (fst (snapshot_rows sample_env ''V''
       [sample_contract ''A1'', sample_contract ''A2'', sample_contract ''A3'',
        sample_contract ''A4'', sample_contract ''A5'', sample_contract ''A6'']) ! 0) = 3
   \<and> bid (fst (snapshot_rows sample_env ''V''
       [sample_contract ''A1'', sample_contract ''A2'', sample_contract ''A3'',
        sample_contract ''A4'', sample_contract ''A5'', sample_contract ''A6'']) ! 1) = 0
   \<and> ask (fst (snapshot_rows sample_env ''V''
       [sample_contract ''A1'', sample_contract ''A2'', sample_contract ''A3'',
        sample_contract ''A4'', sample_contract ''A5'', sample_contract ''A6'']) ! 1) = 0"
  by code_simp


subsection \<open>yf\_ochains.py: post-processing\<close>




subsection \<open>The mid price\<close>

text \<open>
  Claim C1, amended. In every row of oc.py, \<open>mid_price\<close> is \<open>(bid + ask) / 2\<close> when
  \<open>bid > 0\<close> or \<open>ask > 0\<close> and 0 otherwise, where a bid or ask that the snapshot does
  not give is 0. In every row of yf\_ochains.py, \<open>mid_price\<close> is \<open>(bid + ask) / 2\<close> when
  both cells hold a number, and is missing as soon as one of them is.
\<close>

theorem mid_price_rule:
  "(\<forall>r \<in> set (fst (snapshot_rows env tk cs)).
       mid_price r = (if bid r > 0 \<or> ask r > 0 then (bid r + ask r) / 2 else 0))
   \<and> bid (make_row tk t snaps c)
       = (case snaps (symbol c) of None \<Rightarrow> 0
          | Some s \<Rightarrow> (case latest_quote s of None \<Rightarrow> 0
                       | Some q \<Rightarrow> (case bid_price q of None \<Rightarrow> 0 | Some v \<Rightarrow> v)))
   \<and> ask (make_row tk t snaps c)
       = (case snaps (symbol c) of None \<Rightarrow> 0
          | Some s \<Rightarrow> (case latest_quote s of None \<Rightarrow> 0
                       | Some q \<Rightarrow> (case ask_price q of None \<Rightarrow> 0 | Some v \<Rightarrow> v)))
   \<and> (\<forall>r \<in> set (records (fst (get_option_chain yenv ytk m))).
         \<exists>b a v. r ''bid'' = Some b \<and> r ''ask'' = Some a \<and> r ''mid_price'' = Some v
           \<and> (b = NaN \<or> a = NaN \<longrightarrow> v = NaN)
           \<and> (\<forall>x y. num_of b = Inr (Some x) \<and> num_of a = Inr (Some y)
                  \<longrightarrow> v = Num ((x + y) / 2)))"
proof (intro conjI)
  show "\<forall>r \<in> set (fst (snapshot_rows env tk cs)).
       mid_price r = (if bid r > 0 \<or> ask r > 0 then (bid r + ask r) / 2 else 0)"
    by (auto simp: snapshot_rows_map make_row_def Let_def)
  show "bid (make_row tk t snaps c)
       = (case snaps (symbol c) of None \<Rightarrow> 0
          | Some s \<Rightarrow> (case latest_quote s of None \<Rightarrow> 0
                       | Some q \<Rightarrow> (case bid_price q of None \<Rightarrow> 0 | Some v \<Rightarrow> v)))"
    by (simp add: make_row_def market_fields_def or_zero_def Let_def split: option.splits)
  show "ask (make_row tk t snaps c)
       = (case snaps (symbol c) of None \<Rightarrow> 0
          | Some s \<Rightarrow> (case latest_quote s of None \<Rightarrow> 0
                       | Some q \<Rightarrow> (case ask_price q of None \<Rightarrow> 0 | Some v \<Rightarrow> v)))"
    by (simp add: make_row_def market_fields_def or_zero_def Let_def split: option.splits)
  show "\<forall>r \<in> set (records (fst (get_option_chain yenv ytk m))).
         \<exists>b a v. r ''bid'' = Some b \<and> r ''ask'' = Some a \<and> r ''mid_price'' = Some v
           \<and> (b = NaN \<or> a = NaN \<longrightarrow> v = NaN)
           \<and> (\<forall>x y. num_of b = Inr (Some x) \<and> num_of a = Inr (Some y)
                  \<longrightarrow> v = Num ((x + y) / 2))"
  proof
    fix r' assume r': "r' \<in> set (records (fst (get_option_chain yenv ytk m)))"
    with get_option_chain_output [of yenv ytk m] obtain fs
      where hm: "\<forall>f \<in> set fs. has_mid f"
        and pp: "post_process (concat_frames fs) = Inr (fst (get_option_chain yenv ytk m))"
      by auto
    from post_process_rel [OF pp]
    have l: "list_all2 post_row (filter (\<lambda>r. cell_at r ''strike'' \<noteq> NaN) (records (concat_frames fs)))
               (records (fst (get_option_chain yenv ytk m)))"
      by simp
    from list_all2_in_set2 [OF l r'] obtain r
      where r: "r \<in> set (records (concat_frames fs))" and pr: "post_row r r'"
      by auto
    from concat_frames_mid_ok [OF hm r] have "mid_ok r" .
    with pr have "mid_ok r'" by (rule post_row_mid_ok)
    then obtain b a v where bav: "r' ''bid'' = Some b" "r' ''ask'' = Some a" "r' ''mid_price'' = Some v"
      and mc: "mid_cell b a = Inr v"
      unfolding mid_ok_def by blast
    from mc have 1: "b = NaN \<or> a = NaN \<longrightarrow> v = NaN"
      by (auto simp: mid_cell_def num_of_def split: sum.splits option.splits cell.splits)
    from mc have 2: "\<forall>x y. num_of b = Inr (Some x) \<and> num_of a = Inr (Some y)
                  \<longrightarrow> v = Num ((x + y) / 2)"
      by (auto simp: mid_cell_def)
    from bav 1 2 show "\<exists>b a v. r' ''bid'' = Some b \<and> r' ''ask'' = Some a \<and> r' ''mid_price'' = Some v
           \<and> (b = NaN \<or> a = NaN \<longrightarrow> v = NaN)
           \<and> (\<forall>x y. num_of b = Inr (Some x) \<and> num_of a = Inr (Some y)
                  \<longrightarrow> v = Num ((x + y) / 2))"
      by blast
  qed
qed

theorem mid_price_rule_witness:
  "mid_price (fst (snapshot_rows sample_env ''V''
       [sample_contract ''A1'', sample_contract ''A2'', sample_contract ''A3'',
        sample_contract ''A4'', sample_contract ''A5'', sample_contract ''A6'']) ! 0) = 2
   \<and> mid_price (fst (snapshot_rows sample_env ''V''
       [sample_contract ''A1'', sample_contract ''A2'', sample_contract ''A3'',
        sample_contract ''A4'', sample_contract ''A5'', sample_contract ''A6'']) ! 1) = 0
   \<and> (records (fst (get_option_chain sample_yf_env ''V'' MAX_EXPIRY_DAYS)) ! 0) ''mid_price''
       = Some (Num 2)
   \<and> (records (fst (get_option_chain sample_yf_env ''V'' MAX_EXPIRY_DAYS)) ! 1) ''mid_price''
       = Some NaN"
proof -
  let ?cs = "[sample_contract ''A1'', sample_contract ''A2'', sample_contract ''A3'',
              sample_contract ''A4'', sample_contract ''A5'', sample_contract ''A6'']"
  let ?rows = "fst (snapshot_rows sample_env ''V'' ?cs)"
  let ?recs = "records (fst (get_option_chain sample_yf_env ''V'' MAX_EXPIRY_DAYS))"
  note T = mid_price_rule [of sample_env "''V''" ?cs "\<lparr>day = 0, tod = 0\<rparr>" Map.empty
             "sample_contract ''A1''" sample_yf_env "''V''" MAX_EXPIRY_DAYS]
  note A = T [THEN conjunct1]
  note B = T [THEN conjunct2, THEN conjunct2, THEN conjunct2]
  from sample_rows_quotes have "?rows ! 0 \<in> set ?rows" "?rows ! 1 \<in> set ?rows" by simp_all
  then have "mid_price (?rows ! 0) = (if bid (?rows ! 0) > 0 \<or> ask (?rows ! 0) > 0
                   then (bid (?rows ! 0) + ask (?rows ! 0)) / 2 else 0)"
    and "mid_price (?rows ! 1) = (if bid (?rows ! 1) > 0 \<or> ask (?rows ! 1) > 0
                   then (bid (?rows ! 1) + ask (?rows ! 1)) / 2 else 0)"
    using A by blast+
  with sample_rows_quotes have a: "mid_price (?rows ! 0) = 2" "mid_price (?rows ! 1) = 0" by simp_all
  from sample_chain_cells have m0: "?recs ! 0 \<in> set ?recs" and m1: "?recs ! 1 \<in> set ?recs"
    by simp_all
  from B [THEN bspec, OF m0] obtain b0 a0 v0 where
    0: "(?recs ! 0) ''bid'' = Some b0" "(?recs ! 0) ''ask'' = Some a0" "(?recs ! 0) ''mid_price'' = Some v0"
       "\<forall>x y. num_of b0 = Inr (Some x) \<and> num_of a0 = Inr (Some y) \<longrightarrow> v0 = Num ((x + y) / 2)"
    by blast
  from B [THEN bspec, OF m1] obtain b1 a1 v1 where
    1: "(?recs ! 1) ''bid'' = Some b1" "(?recs ! 1) ''mid_price'' = Some v1"
       "b1 = NaN \<or> a1 = NaN \<longrightarrow> v1 = NaN"
    by blast
  from 0 sample_chain_cells have "b0 = Num 1" "a0 = Num 3" by simp_all
  with 0(4) have "v0 = Num ((1 + 3) / 2)" by (simp add: num_of_def)
  with 0(3) have b: "(?recs ! 0) ''mid_price'' = Some (Num 2)" by simp
  from 1 sample_chain_cells have "b1 = NaN" by simp
  with 1 have c: "(?recs ! 1) ''mid_price'' = Some NaN" by simp
  from a b c show ?thesis by (intro conjI)
qed

text \<open>
  Contract \<open>C2\<close> has neither bid nor ask; its \<open>mid_price\<close> is missing, not 0.
\<close>

theorem missing_quote_counterexample:
  "(records (fst (get_option_chain sample_yf_env ''V'' MAX_EXPIRY_DAYS)) ! 1) ''bid'' = Some NaN
   \<and> (records (fst (get_option_chain sample_yf_env ''V'' MAX_EXPIRY_DAYS)) ! 1) ''ask'' = Some NaN
   \<and> (records (fst (get_option_chain sample_yf_env ''V'' MAX_EXPIRY_DAYS)) ! 1) ''mid_price''
       = Some NaN
   \<and> (records (fst (get_option_chain sample_yf_env ''V'' MAX_EXPIRY_DAYS)) ! 1) ''mid_price''
       \<noteq> Some (Num 0)"
  by code_simp

subsection \<open>The batch orchestrators\<close>










lemma fetch_multiple_tickers_empty:
  assumes "get_options_chain_snapshot env tk d p = Some (Inr [], pr)"
  shows "fetch_multiple_tickers env (tk # rest) d p w
           = fetch_multiple_tickers env rest d p
               (w\<lparr>out := out w @ [FetchingChain tk] @ pr @ [NoData tk]\<rparr>)"
  using assms by simp

lemma scrape_tickers_empty:
  assumes "frame_empty (fst (get_option_chain env tk m))"
  shows "scrape_tickers env (tk # rest) m w
           = scrape_tickers env rest m
               (w\<lparr>out := out w @ [Banner tk] @ snd (get_option_chain env tk m)
                           @ [NoDataRetrieved tk]\<rparr>)"
  using assms by (simp add: Let_def)


lemma empty_env_discover:
  "discover empty_env tk d p = (Some (Inr []), [CurrentPrice tk 100])"
  by (subst discover_def, subst discovery_loop.simps)
     (simp add: empty_env_def sample_env_def Let_def get_current_price_yf_def
        current_price_body_def unpack_def truthy_def)


text \<open>
  Claim C9. When the fetch of a ticker gives an empty result, the orchestrator prints the
  no-data message and goes on with the remaining tickers from a world with the same
  files: nothing is written and nothing is raised. This is so in both scripts; a
  discovery of 0 contracts in oc.py and an empty list of expirations in yf\_ochains.py
  are such fetches.
\<close>

theorem empty_fetch_skips_ticker:
  "(get_options_chain_snapshot env tk d p = Some (Inr [], pr) \<longrightarrow>
      fetch_multiple_tickers env (tk # rest) d p w
        = fetch_multiple_tickers env rest d p
            (w\<lparr>out := out w @ [FetchingChain tk] @ pr @ [NoData tk]\<rparr>))
   \<and> (fst (discover env tk d p) = Some (Inr []) \<longrightarrow>
        get_options_chain_snapshot env tk d p
          = Some (Inr [], snd (discover env tk d p) @ [FoundContracts 0 tk]))
   \<and> (frame_empty (fst (get_option_chain yenv ytk m)) \<longrightarrow>
        scrape_tickers yenv (ytk # yrest) m yw
          = scrape_tickers yenv yrest m
              (yw\<lparr>out := out yw @ [Banner ytk] @ snd (get_option_chain yenv ytk m)
                            @ [NoDataRetrieved ytk]\<rparr>))
   \<and> (stock_options yenv ytk = Inr [] \<longrightarrow>
        get_option_chain yenv ytk m = (empty_frame, [NoOptionsData ytk])
        \<and> frame_empty (fst (get_option_chain yenv ytk m)))"
proof (intro conjI impI)
  assume "get_options_chain_snapshot env tk d p = Some (Inr [], pr)"
  then show "fetch_multiple_tickers env (tk # rest) d p w
        = fetch_multiple_tickers env rest d p
            (w\<lparr>out := out w @ [FetchingChain tk] @ pr @ [NoData tk]\<rparr>)"
    by (rule fetch_multiple_tickers_empty)
next
  assume "fst (discover env tk d p) = Some (Inr [])"
  from get_options_chain_snapshot_returns [OF this]
  show "get_options_chain_snapshot env tk d p
          = Some (Inr [], snd (discover env tk d p) @ [FoundContracts 0 tk])"
    by (simp add: snapshot_rows_def)
next
  assume "frame_empty (fst (get_option_chain yenv ytk m))"
  then show "scrape_tickers yenv (ytk # yrest) m yw
          = scrape_tickers yenv yrest m
              (yw\<lparr>out := out yw @ [Banner ytk] @ snd (get_option_chain yenv ytk m)
                            @ [NoDataRetrieved ytk]\<rparr>)"
    by (rule scrape_tickers_empty)
next
  assume e: "stock_options yenv ytk = Inr []"
  then show g: "get_option_chain yenv ytk m = (empty_frame, [NoOptionsData ytk])"
    by (simp add: get_option_chain_def option_chain_body_def)
  show "frame_empty (fst (get_option_chain yenv ytk m))"
    unfolding g by (simp add: frame_empty_def empty_frame_def)
qed

theorem empty_fetch_skips_ticker_witness:
  "fetch_multiple_tickers empty_env [''V''] 45 (3 / 10) \<lparr>out = [], files = []\<rparr>
     = Some (Inr (), \<lparr>out = [FetchingChain ''V'', CurrentPrice ''V'' 100, FoundContracts 0 ''V'',
                             NoData ''V''], files = []\<rparr>)
   \<and> scrape_tickers sample_yf_env [''NONE''] MAX_EXPIRY_DAYS \<lparr>out = [], files = []\<rparr>
     = (Inr (), \<lparr>out = [Banner ''NONE'', NoOptionsData ''NONE'', NoDataRetrieved ''NONE''],
                  files = []\<rparr>)"
proof -
  note T = empty_fetch_skips_ticker [of empty_env "''V''" 45 "3 / 10"
             "[CurrentPrice ''V'' 100, FoundContracts 0 ''V'']" "[]" "\<lparr>out = [], files = []\<rparr>"
             sample_yf_env "''NONE''" MAX_EXPIRY_DAYS "[]" "\<lparr>out = [], files = []\<rparr>"]
  have d: "fst (discover empty_env ''V'' 45 (3 / 10)) = Some (Inr [])"
    by (simp add: empty_env_discover)
  from T [THEN conjunct2, THEN conjunct1, THEN mp, OF d]
  have g: "get_options_chain_snapshot empty_env ''V'' 45 (3 / 10)
             = Some (Inr [], [CurrentPrice ''V'' 100, FoundContracts 0 ''V''])"
    by (simp add: empty_env_discover)
  from T [THEN conjunct1, THEN mp, OF g]
  have 1: "fetch_multiple_tickers empty_env [''V''] 45 (3 / 10) \<lparr>out = [], files = []\<rparr>
     = Some (Inr (), \<lparr>out = [FetchingChain ''V'', CurrentPrice ''V'' 100, FoundContracts 0 ''V'',
                             NoData ''V''], files = []\<rparr>)"
    by simp
  have e: "stock_options sample_yf_env ''NONE'' = Inr []"
    by (simp add: sample_yf_env_def)
  note E = T [THEN conjunct2, THEN conjunct2, THEN conjunct2, THEN mp, OF e]
  from T [THEN conjunct2, THEN conjunct2, THEN conjunct1, THEN mp, OF E [THEN conjunct2]]
  have 2: "scrape_tickers sample_yf_env [''NONE''] MAX_EXPIRY_DAYS \<lparr>out = [], files = []\<rparr>
     = (Inr (), \<lparr>out = [Banner ''NONE'', NoOptionsData ''NONE'', NoDataRetrieved ''NONE''],
                  files = []\<rparr>)"
    by (simp add: E [THEN conjunct1])
  from 1 2 show ?thesis by (rule conjI)
qed






end
